theory Spec2Isabelle
  imports Complex_Main
begin

section \<open>Attribute values\<close>

text \<open>
  The handlers read configuration and usage through values of the JSON library's result
  type. The library is not part of the repository, so a value is described by what its
  accessors return: the \<open>Type\<close> field, \<open>Exists()\<close>, \<open>String()\<close>, \<open>Bool()\<close>, \<open>Int()\<close> (written \<open>Int'\<close>),
  \<open>Float()\<close>, \<open>Array()\<close>, and the values reached from it by \<open>Get(path)\<close>. Floating-point
  numbers are represented by the rational they denote.
\<close>

datatype gjson_Type = gjson_Null | gjson_False | gjson_Number | gjson_String | gjson_True | gjson_JSON

datatype Result = Result
  (Type: gjson_Type)
  (Exists: bool)
  (String: string)
  (Bool: bool)
  (Int': int)
  (Float: rat)
  (Array: "Result list")
  (Paths: "string \<rightharpoonup> Result")

text \<open>The zero value \<open>Result{}\<close>: the typed absent value returned for a missing path.\<close>

definition zero_Result :: Result where
  "zero_Result = Result gjson_Null False [] False 0 0 [] Map.empty"

definition Result_Get :: "Result \<Rightarrow> string \<Rightarrow> Result" where
  "Result_Get r path = (case Paths r path of None \<Rightarrow> zero_Result | Some v \<Rightarrow> v)"

section \<open>Resource Data View and Usage Data View\<close>

datatype ResourceData = ResourceData
  (Address: string)
  (RawValues: Result)
  (referencesMap: "string \<rightharpoonup> ResourceData list")

text \<open>
  Modelled from the spec: the method \<open>Get\<close> of \<open>schema.ResourceData\<close> is not among the
  sources. \<open>Get(path)\<close> returns the value at the path, or the typed absent value if the
  path is not present; it never fails.
\<close>

definition Get :: "ResourceData \<Rightarrow> string \<Rightarrow> Result" where
  "Get d path = Result_Get (RawValues d) path"

text \<open>
  Modelled from the spec: the method \<open>References\<close> of \<open>schema.ResourceData\<close> is not among
  the sources. \<open>References(attributeName)\<close> returns the resources the link attribute
  resolves to, in declaration order, and the empty sequence if it is unresolved or absent.
\<close>

definition References :: "ResourceData \<Rightarrow> string \<Rightarrow> ResourceData list" where
  "References d key = (case referencesMap d key of None \<Rightarrow> [] | Some rs \<Rightarrow> rs)"

record UsageData =
  Attributes :: "string \<rightharpoonup> Result"

text \<open>
  Modelled from the spec: the method \<open>Get\<close> of \<open>schema.UsageData\<close> is not among the
  sources. \<open>Get(key)\<close> returns the value supplied for the key, absent if not supplied.
\<close>

definition UsageData_Get :: "UsageData \<Rightarrow> string \<Rightarrow> Result" where
  "UsageData_Get u key = (case Attributes u key of None \<Rightarrow> zero_Result | Some v \<Rightarrow> v)"

section \<open>Cost components and resources\<close>

record AttributeFilter =
  Key :: string
  Value :: "string option"
  ValueRegex :: "string option"

record ProductFilter =
  VendorName :: "string option"
  Service :: "string option"
  ProductFamily :: "string option"
  Region :: "string option"
  AttributeFilters :: "AttributeFilter list"

record PriceFilter =
  PurchaseOption :: "string option"
  StartUsageAmount :: "string option"
  TermLength :: "string option"
  TermPurchaseOption :: "string option"
  TermOfferingClass :: "string option"

text \<open>Decimal quantities are represented by the rational number they denote.\<close>

record CostComponent =
  Name :: string
  Unit :: string
  UnitMultiplier :: int
  IgnoreIfMissingPrice :: bool
  ProductFilter :: "ProductFilter option"
  PriceFilter :: "PriceFilter option"
  HourlyQuantity :: "rat option"
  MonthlyQuantity :: "rat option"

datatype Resource = Resource
  (ResourceName: string)
  (SubResources: "Resource list")
  (CostComponents: "CostComponent list")

section \<open>Package state and logging\<close>

text \<open>
  The package-level variables the handlers read, and the lines written to the logger.
  A function that logs takes the state and returns the new one; a function that only
  reads a package variable takes the state.
\<close>

record world =
  defaultEC2InstanceMetricCount :: int
  defaultVolumeSize :: int
  logged :: "string list"

definition Warnf :: "world \<Rightarrow> string \<Rightarrow> world" where
  "Warnf w msg = w\<lparr>logged := logged w @ [msg]\<rparr>"

section \<open>String helpers of the standard library\<close>

definition HasPrefix :: "string \<Rightarrow> string \<Rightarrow> bool" where
  "HasPrefix s p = (take (length p) s = p)"

definition HasSuffix :: "string \<Rightarrow> string \<Rightarrow> bool" where
  "HasSuffix s x = (length x \<le> length s \<and> drop (length s - length x) s = x)"

text \<open>
  \<open>strings.ToLower\<close> and \<open>strings.Title\<close>. A string is its UTF-8 bytes. On a string of
  ASCII bytes both functions map letter by letter, as written below. On a string with a
  byte outside ASCII their result depends on the Unicode tables of the standard library,
  which are not modelled: the result is left unspecified there, and nothing is proved
  from it.
\<close>

definition isASCII :: "char \<Rightarrow> bool" where
  "isASCII c = (\<not> digit7 c)"

definition upper_letters :: string where
  "upper_letters = ''ABCDEFGHIJKLMNOPQRSTUVWXYZ''"

definition lower_letters :: string where
  "lower_letters = ''abcdefghijklmnopqrstuvwxyz''"

definition unicode_ToLower :: "string \<Rightarrow> string" where
  "unicode_ToLower = undefined"

definition ToLower :: "string \<Rightarrow> string" where
  "ToLower s =
     (if list_all isASCII s
      then map (\<lambda>c. case map_of (zip upper_letters lower_letters) c of None \<Rightarrow> c | Some l \<Rightarrow> l) s
      else unicode_ToLower s)"

definition isSeparator :: "char \<Rightarrow> bool" where
  "isSeparator c = (c \<notin> set (upper_letters @ lower_letters @ ''0123456789_''))"

fun Title_from :: "char \<Rightarrow> string \<Rightarrow> string" where
  "Title_from prev [] = []"
| "Title_from prev (c # cs) =
     (if isSeparator prev
      then (case map_of (zip lower_letters upper_letters) c of None \<Rightarrow> c | Some t \<Rightarrow> t)
      else c) # Title_from c cs"

definition unicode_Title :: "string \<Rightarrow> string" where
  "unicode_Title = undefined"

definition Title :: "string \<Rightarrow> string" where
  "Title s = (if list_all isASCII s then Title_from CHR '' '' s else unicode_Title s)"

text \<open>\<open>strings.SplitN(s, ".", 2)\<close>: at most two pieces, split at the first dot.\<close>

definition SplitN2 :: "string \<Rightarrow> string list" where
  "SplitN2 s =
     (let a = takeWhile (\<lambda>c. c \<noteq> CHR ''.'') s; b = dropWhile (\<lambda>c. c \<noteq> CHR ''.'') s
      in if b = [] then [a] else [a, tl b])"

text \<open>The decimal digits of a natural number, as \<open>%d\<close> prints them.\<close>

function itoa :: "nat \<Rightarrow> string" where
  "itoa n =
     (if n < 10 then [''0123456789'' ! n]
      else itoa (n div 10) @ [''0123456789'' ! (n mod 10)])"
  by pat_completeness auto
termination
  by (relation "measure (\<lambda>n. n)") auto

section \<open>The EC2 instance handler\<close>

text \<open>
  \<open>ebsVolumeCostComponents\<close> is defined in another file of the package, which is not
  among the sources: it is a parameter of the functions that call it.
\<close>

type_synonym ebsVolumeCostComponents_fn =
  "string \<Rightarrow> string \<Rightarrow> rat option \<Rightarrow> rat \<Rightarrow> rat \<Rightarrow> rat option \<Rightarrow> CostComponent list"

definition reservedInstanceCostComponent ::
  "string \<Rightarrow> string \<Rightarrow> string \<Rightarrow> string \<Rightarrow> string \<Rightarrow> string \<Rightarrow> string \<Rightarrow> string \<Rightarrow> string \<Rightarrow> int
     \<Rightarrow> CostComponent" where
  "reservedInstanceCostComponent region osLabel purchaseOptionLabel reservedType reservedTerm
       reservedPaymentOption tenancy instanceType operatingSystem count' =
     (let reservedTermName =
            (case map_of [(''1_year'', ''1yr''), (''3_year'', ''3yr'')] reservedTerm of
               None \<Rightarrow> [] | Some n \<Rightarrow> n);
          reservedPaymentOptionName =
            (case map_of [(''no_upfront'', ''No Upfront''),
                          (''partial_upfront'', ''Partial Upfront''),
                          (''all_upfront'', ''All Upfront'')] reservedPaymentOption of
               None \<Rightarrow> [] | Some n \<Rightarrow> n)
      in \<lparr> Name = ''Instance usage ('' @ osLabel @ '', '' @ purchaseOptionLabel @ '', '' @ instanceType @ '')'',
           Unit = ''hours'',
           UnitMultiplier = 1,
           IgnoreIfMissingPrice = False,
           ProductFilter = Some \<lparr>
             VendorName = Some ''aws'',
             Service = Some ''AmazonEC2'',
             ProductFamily = Some ''Compute Instance'',
             Region = Some region,
             AttributeFilters = [
               \<lparr> Key = ''instanceType'', Value = Some instanceType, ValueRegex = None \<rparr>,
               \<lparr> Key = ''tenancy'', Value = Some tenancy, ValueRegex = None \<rparr>,
               \<lparr> Key = ''operatingSystem'', Value = Some operatingSystem, ValueRegex = None \<rparr>,
               \<lparr> Key = ''preInstalledSw'', Value = Some ''NA'', ValueRegex = None \<rparr>,
               \<lparr> Key = ''capacitystatus'', Value = Some ''Used'', ValueRegex = None \<rparr>] \<rparr>,
           PriceFilter = Some \<lparr>
             PurchaseOption = None,
             StartUsageAmount = Some ''0'',
             TermLength = Some reservedTermName,
             TermPurchaseOption = Some reservedPaymentOptionName,
             TermOfferingClass = Some reservedType \<rparr>,
           HourlyQuantity = Some (of_int count'),
           MonthlyQuantity = None \<rparr>)"

definition computeCostComponent ::
  "ResourceData \<Rightarrow> UsageData option \<Rightarrow> string \<Rightarrow> string \<Rightarrow> world \<Rightarrow> CostComponent \<times> world" where
  "computeCostComponent d u purchaseOption tenancy w =
     (let region = String (Get d ''region'');
          instanceType = String (Get d ''instance_type'');
          purchaseOptionLabel =
            (case map_of [(''on_demand'', ''on-demand''), (''spot'', ''spot'')] purchaseOption of
               None \<Rightarrow> [] | Some l \<Rightarrow> l);
          (osLabel, operatingSystem, w1) =
            (case u of
               None \<Rightarrow> (''Linux/UNIX'', ''Linux'', w)
             | Some ud \<Rightarrow>
                 if Exists (UsageData_Get ud ''operating_system'') then
                   (let os = ToLower (String (UsageData_Get ud ''operating_system'')) in
                    if os = ''windows'' then (''Windows'', ''Windows'', w)
                    else if os = ''rhel'' then (''RHEL'', ''RHEL'', w)
                    else if os = ''suse'' then (''SUSE'', ''SUSE'', w)
                    else if os \<noteq> ''linux'' then
                      (''Linux/UNIX'', ''Linux'',
                       Warnf w (''Unrecognized operating system '' @ os @ '', defaulting to Linux/UNIX''))
                    else (''Linux/UNIX'', ''Linux'', w))
                 else (''Linux/UNIX'', ''Linux'', w));
          (purchaseOptionLabel, reservedIType, reservedTerm, reservedPaymentOption) =
            (case u of
               None \<Rightarrow> (purchaseOptionLabel, [], [], [])
             | Some ud \<Rightarrow>
                 if Exists (UsageData_Get ud ''reserved_instance_type'') then
                   (''reserved'',
                    String (UsageData_Get ud ''reserved_instance_type''),
                    (if Exists (UsageData_Get ud ''reserved_instance_term'')
                     then String (UsageData_Get ud ''reserved_instance_term'') else []),
                    (if Exists (UsageData_Get ud ''reserved_instance_payment_option'')
                     then String (UsageData_Get ud ''reserved_instance_payment_option'') else []))
                 else (purchaseOptionLabel, [], [], []))
      in if reservedIType \<noteq> [] then
           (reservedInstanceCostComponent region osLabel purchaseOptionLabel reservedIType
              reservedTerm reservedPaymentOption tenancy instanceType operatingSystem 1, w1)
         else
           (\<lparr> Name = ''Instance usage ('' @ osLabel @ '', '' @ purchaseOptionLabel @ '', '' @ instanceType @ '')'',
              Unit = ''hours'',
              UnitMultiplier = 1,
              IgnoreIfMissingPrice = False,
              ProductFilter = Some \<lparr>
                VendorName = Some ''aws'',
                Service = Some ''AmazonEC2'',
                ProductFamily = Some ''Compute Instance'',
                Region = Some region,
                AttributeFilters = [
                  \<lparr> Key = ''instanceType'', Value = Some instanceType, ValueRegex = None \<rparr>,
                  \<lparr> Key = ''tenancy'', Value = Some tenancy, ValueRegex = None \<rparr>,
                  \<lparr> Key = ''operatingSystem'', Value = Some operatingSystem, ValueRegex = None \<rparr>,
                  \<lparr> Key = ''preInstalledSw'', Value = Some ''NA'', ValueRegex = None \<rparr>,
                  \<lparr> Key = ''capacitystatus'', Value = Some ''Used'', ValueRegex = None \<rparr>] \<rparr>,
              PriceFilter = Some \<lparr>
                PurchaseOption = Some purchaseOption,
                StartUsageAmount = None,
                TermLength = None,
                TermPurchaseOption = None,
                TermOfferingClass = None \<rparr>,
              HourlyQuantity = Some 1,
              MonthlyQuantity = None \<rparr>, w1))"

definition ebsOptimizedCostComponent :: "ResourceData \<Rightarrow> CostComponent" where
  "ebsOptimizedCostComponent d =
     (let region = String (Get d ''region'');
          instanceType = String (Get d ''instance_type'')
      in \<lparr> Name = ''EBS-optimized usage'',
           Unit = ''hours'',
           UnitMultiplier = 1,
           IgnoreIfMissingPrice = True,
           ProductFilter = Some \<lparr>
             VendorName = Some ''aws'',
             Service = Some ''AmazonEC2'',
             ProductFamily = Some ''Compute Instance'',
             Region = Some region,
             AttributeFilters = [
               \<lparr> Key = ''instanceType'', Value = Some instanceType, ValueRegex = None \<rparr>,
               \<lparr> Key = ''usagetype'', Value = None, ValueRegex = Some ''/EBSOptimized/'' \<rparr>] \<rparr>,
           PriceFilter = None,
           HourlyQuantity = Some 1,
           MonthlyQuantity = None \<rparr>)"

definition detailedMonitoringCostComponent :: "ResourceData \<Rightarrow> world \<Rightarrow> CostComponent" where
  "detailedMonitoringCostComponent d w =
     (let region = String (Get d ''region'')
      in \<lparr> Name = ''EC2 detailed monitoring'',
           Unit = ''metrics'',
           UnitMultiplier = 1,
           IgnoreIfMissingPrice = True,
           ProductFilter = Some \<lparr>
             VendorName = Some ''aws'',
             Service = Some ''AmazonCloudWatch'',
             ProductFamily = Some ''Metric'',
             Region = Some region,
             AttributeFilters = [] \<rparr>,
           PriceFilter = Some \<lparr>
             PurchaseOption = None,
             StartUsageAmount = Some ''0'',
             TermLength = None,
             TermPurchaseOption = None,
             TermOfferingClass = None \<rparr>,
           HourlyQuantity = None,
           MonthlyQuantity = Some (of_int (defaultEC2InstanceMetricCount w)) \<rparr>)"

definition cpuCreditsCostComponent :: "ResourceData \<Rightarrow> CostComponent option" where
  "cpuCreditsCostComponent d =
     (let region = String (Get d ''region'');
          instanceType = String (Get d ''instance_type'');
          cpuCredits = String (Get d ''credit_specification.0.cpu_credits'');
          cpuCredits =
            (if cpuCredits = [] \<and> (HasPrefix instanceType ''t3.'' \<or> HasPrefix instanceType ''t4g.'')
             then ''unlimited'' else cpuCredits)
      in if cpuCredits \<noteq> ''unlimited'' then None
         else
           (let prefix = hd (SplitN2 instanceType)
            in Some \<lparr> Name = ''CPU credits'',
                 Unit = ''vCPU-hours'',
                 UnitMultiplier = 1,
                 IgnoreIfMissingPrice = False,
                 ProductFilter = Some \<lparr>
                   VendorName = Some ''aws'',
                   Service = Some ''AmazonEC2'',
                   ProductFamily = Some ''CPU Credits'',
                   Region = Some region,
                   AttributeFilters = [
                     \<lparr> Key = ''operatingSystem'', Value = Some ''Linux'', ValueRegex = None \<rparr>,
                     \<lparr> Key = ''usagetype'', Value = None,
                       ValueRegex = Some (''/CPUCredits:'' @ prefix @ ''$/'') \<rparr>] \<rparr>,
                 PriceFilter = None,
                 HourlyQuantity = None,
                 MonthlyQuantity = None \<rparr>))"

text \<open>
  The sizes are read with \<open>Float()\<close> and turned into decimals; a value that is not a finite
  number is outside the model.
\<close>

definition newEbsBlockDevice ::
  "ebsVolumeCostComponents_fn \<Rightarrow> string \<Rightarrow> Result \<Rightarrow> string \<Rightarrow> world \<Rightarrow> Resource" where
  "newEbsBlockDevice ebsVolumeCostComponents name d region w =
     (let volumeAPIName =
            (if Exists (Result_Get d ''volume_type'') then String (Result_Get d ''volume_type'')
             else ''gp2'');
          gbVal =
            (if Exists (Result_Get d ''volume_size'') then Float (Result_Get d ''volume_size'')
             else of_int (defaultVolumeSize w));
          iopsVal =
            (if Exists (Result_Get d ''iops'') then Float (Result_Get d ''iops'') else 0);
          unknown = None
      in Resource name []
           (ebsVolumeCostComponents region volumeAPIName unknown gbVal iopsVal unknown))"

definition newRootBlockDevice ::
  "ebsVolumeCostComponents_fn \<Rightarrow> Result \<Rightarrow> string \<Rightarrow> world \<Rightarrow> Resource" where
  "newRootBlockDevice ebsVolumeCostComponents d region w =
     newEbsBlockDevice ebsVolumeCostComponents ''root_block_device'' d region w"

text \<open>The loop of \<open>newEbsBlockDevices\<close> over the array, from index \<open>i\<close>.\<close>

fun newEbsBlockDevices_from ::
  "ebsVolumeCostComponents_fn \<Rightarrow> nat \<Rightarrow> Result list \<Rightarrow> string \<Rightarrow> world \<Rightarrow> Resource list" where
  "newEbsBlockDevices_from ebsVolumeCostComponents i [] region w = []"
| "newEbsBlockDevices_from ebsVolumeCostComponents i (data # rest) region w =
     newEbsBlockDevice ebsVolumeCostComponents (''ebs_block_device['' @ itoa i @ '']'') data region w
       # newEbsBlockDevices_from ebsVolumeCostComponents (Suc i) rest region w"

definition newEbsBlockDevices ::
  "ebsVolumeCostComponents_fn \<Rightarrow> Result \<Rightarrow> string \<Rightarrow> world \<Rightarrow> Resource list" where
  "newEbsBlockDevices ebsVolumeCostComponents d region w =
     newEbsBlockDevices_from ebsVolumeCostComponents 0 (Array d) region w"

definition NewInstance ::
  "ebsVolumeCostComponents_fn \<Rightarrow> ResourceData \<Rightarrow> UsageData option \<Rightarrow> world
     \<Rightarrow> Resource option \<times> world" where
  "NewInstance ebsVolumeCostComponents d u w =
     (if String (Get d ''tenancy'') = ''host'' then
        (None, Warnf w (''Skipping resource '' @ Address d
           @ ''. Infracost currently does not support host tenancy for AWS EC2 instances''))
      else
        (let tenancy = (if String (Get d ''tenancy'') = ''dedicated'' then ''Dedicated'' else ''Shared'');
             region = String (Get d ''region'');
             subResources = [];
             subResources = subResources
               @ [newRootBlockDevice ebsVolumeCostComponents (Get d ''root_block_device.0'') region w];
             subResources = subResources
               @ newEbsBlockDevices ebsVolumeCostComponents (Get d ''ebs_block_device'') region w;
             (c0, w1) = computeCostComponent d u ''on_demand'' tenancy w;
             costComponents = [c0];
             costComponents =
               (if Bool (Get d ''ebs_optimized'')
                then costComponents @ [ebsOptimizedCostComponent d] else costComponents);
             costComponents =
               (if Bool (Get d ''monitoring'')
                then costComponents @ [detailedMonitoringCostComponent d w1] else costComponents);
             costComponents =
               (case cpuCreditsCostComponent d of
                  None \<Rightarrow> costComponents
                | Some c \<Rightarrow> costComponents @ [c])
         in (Some (Resource (Address d) subResources costComponents), w1)))"

section \<open>Decimal division\<close>

text \<open>
  The decimal library's \<open>Div\<close> rounds the quotient to \<open>DivisionPrecision\<close> = 16 decimal
  places, half away from zero, and panics on a zero divisor.
\<close>

datatype panic = IndexOutOfRange | DivisionByZero

definition DivisionPrecision :: nat where
  "DivisionPrecision = 16"

definition DivRound :: "rat \<Rightarrow> rat \<Rightarrow> nat \<Rightarrow> rat" where
  "DivRound d d2 prec =
     (let q = d / d2
      in sgn q * of_int \<lfloor>\<bar>q\<bar> * 10 ^ prec + 1 / 2\<rfloor> / 10 ^ prec)"

definition Div :: "rat \<Rightarrow> rat \<Rightarrow> panic + rat" where
  "Div d d2 = (if d2 = 0 then Inl DivisionByZero else Inr (DivRound d d2 DivisionPrecision))"

section \<open>Tiered-quantity allocator\<close>

text \<open>
  Modelled from the spec: \<open>usage.CalculateTierBuckets\<close> is not among the sources. Tier
  \<open>i\<close> receives \<open>min(remaining, bound_i)\<close>, the remainder cascades to the next tier, and
  the last bucket absorbs what is left; the output has one element more than the list
  of tier widths.
\<close>

fun CalculateTierBuckets :: "rat \<Rightarrow> int list \<Rightarrow> rat list" where
  "CalculateTierBuckets remaining [] = [remaining]"
| "CalculateTierBuckets remaining (b # bs) =
     min remaining (of_int b) # CalculateTierBuckets (remaining - min remaining (of_int b)) bs"

section \<open>The key vault key handler\<close>

text \<open>Indexing a slice panics out of range.\<close>

definition index :: "'a list \<Rightarrow> nat \<Rightarrow> panic + 'a" where
  "index xs i = (if i < length xs then Inr (xs ! i) else Inl IndexOutOfRange)"

text \<open>
  The cost components are appended one after the other; the first panic, in the order of
  evaluation, aborts the handler.
\<close>

fun collect :: "(panic + 'a) list \<Rightarrow> panic + 'a list" where
  "collect [] = Inr []"
| "collect (Inl p # rest) = Inl p"
| "collect (Inr x # rest) = (case collect rest of Inl p \<Rightarrow> Inl p | Inr xs \<Rightarrow> Inr (x # xs))"

definition vaultKeysCostComponent ::
  "string \<Rightarrow> string \<Rightarrow> string \<Rightarrow> string \<Rightarrow> string \<Rightarrow> string \<Rightarrow> rat option \<Rightarrow> int
     \<Rightarrow> panic + CostComponent" where
  "vaultKeysCostComponent name location unit skuName meterName startUsage quantity multi =
     (case (case quantity of
              None \<Rightarrow> Inr None
            | Some q \<Rightarrow> (case Div q (of_int multi) of Inl p \<Rightarrow> Inl p | Inr q' \<Rightarrow> Inr (Some q'))) of
        Inl p \<Rightarrow> Inl p
      | Inr quantity \<Rightarrow>
          Inr \<lparr> Name = name,
                Unit = unit,
                UnitMultiplier = 1,
                IgnoreIfMissingPrice = False,
                ProductFilter = Some \<lparr>
                  VendorName = Some ''azure'',
                  Service = Some ''Key Vault'',
                  ProductFamily = Some ''Security'',
                  Region = Some location,
                  AttributeFilters = [
                    \<lparr> Key = ''productName'', Value = Some ''Key Vault'', ValueRegex = None \<rparr>,
                    \<lparr> Key = ''skuName'', Value = Some skuName, ValueRegex = None \<rparr>,
                    \<lparr> Key = ''meterName'', Value = Some meterName, ValueRegex = None \<rparr>] \<rparr>,
                PriceFilter = Some \<lparr>
                  PurchaseOption = Some ''Consumption'',
                  StartUsageAmount = Some startUsage,
                  TermLength = None,
                  TermPurchaseOption = None,
                  TermOfferingClass = None \<rparr>,
                HourlyQuantity = None,
                MonthlyQuantity = quantity \<rparr>)"

text \<open>
  The pattern the handler repeats for each usage key: a nil pointer unless the usage data is
  given and has the key, otherwise \<open>decimalPtr(decimal.NewFromInt(u.Get(key).Int()))\<close>.
\<close>

definition usageQuantity :: "UsageData option \<Rightarrow> string \<Rightarrow> rat option" where
  "usageQuantity u key =
     (case u of
        None \<Rightarrow> None
      | Some ud \<Rightarrow>
          if Exists (UsageData_Get ud key) then Some (of_int (Int' (UsageData_Get ud key)))
          else None)"

definition NewAzureKeyVaultKey ::
  "ResourceData \<Rightarrow> UsageData option \<Rightarrow> world \<Rightarrow> panic + (Resource option \<times> world)" where
  "NewAzureKeyVaultKey d u w =
     (let keyVault = References d ''key_vault_id'' in
      case index keyVault 0 of
        Inl p \<Rightarrow> Inl p
      | Inr kv \<Rightarrow>
         (let location = String (Get kv ''location'') in
          if location = [] then
            Inr (None, Warnf w (''Skipping resource '' @ Address d
              @ ''. Infracost currently cannot find the location for this resource.''))
          else
           (let skuName = Title (String (Get kv ''sku_name''));
                keyType = String (Get d ''key_type'');
                keySize =
                  (if Type (Get d ''key_size'') \<noteq> gjson_Null then String (Get d ''key_size'') else []);
                unit = ''10K transactions'';
                secretsTransactions = usageQuantity u ''monthly_secrets_operations'';
                meterName = ''Operations'';
                costComponents =
                  [vaultKeysCostComponent ''Secrets operations'' location unit skuName meterName
                     ''0'' secretsTransactions 10000];
                certificateRenewals = usageQuantity u ''monthly_certificate_renewal_requests'';
                meterName = ''Certificate Renewal Request'';
                costComponents = costComponents @
                  [vaultKeysCostComponent ''Certificate operations'' location ''renewals'' skuName
                     meterName ''0'' certificateRenewals 1];
                certificateOperations = usageQuantity u ''monthly_certificate_other_operations'';
                meterName = ''Operations'';
                costComponents = costComponents @
                  [vaultKeysCostComponent ''Certificate operations'' location unit skuName meterName
                     ''0'' certificateOperations 10000];
                keyRotationRenewals = usageQuantity u ''monthly_key_rotation_renewals'';
                meterName = ''Secret Renewal'';
                costComponents = costComponents @
                  [vaultKeysCostComponent ''Storage key rotation'' location ''renewals'' skuName
                     meterName ''0'' keyRotationRenewals 1];
                (costComponents, meterName) =
                  (if \<not> HasSuffix keyType ''HSM'' then
                     (let softwareProtectedTransactions =
                            usageQuantity u ''monthly_protected_keys_operations'';
                          name = ''Software-protected keys'';
                          meterName = ''Operations''
                      in if keyType = ''RSA'' \<and> keySize = ''2048'' then
                           (costComponents @
                              [vaultKeysCostComponent name location unit skuName meterName ''0''
                                 softwareProtectedTransactions 10000], meterName)
                         else
                           (let meterName = ''Advanced Key Operations''
                            in (costComponents @
                                  [vaultKeysCostComponent name location unit skuName meterName ''0''
                                     softwareProtectedTransactions 10000], meterName)))
                   else (costComponents, meterName));
                costComponents =
                  (if HasSuffix keyType ''HSM'' \<and> skuName = ''Premium'' then
                     (let name = ''HSM-protected keys'';
                          keyUnit = ''months'';
                          (costComponents, meterName) =
                            (case usageQuantity u ''hsm_protected_keys'' of
                               Some protectedKeys \<Rightarrow>
                                 if keyType = ''RSA-HSM'' \<and> keySize = ''2048'' then
                                   (let meterName = ''Premium HSM-protected RSA 2048-bit key''
                                    in (costComponents @
                                          [vaultKeysCostComponent name location keyUnit skuName
                                             meterName ''0'' (Some protectedKeys) 1], meterName))
                                 else
                                   (let meterName = ''Premium HSM-protected Advanced Key'';
                                        tierLimits = [250, 1250, 2500];
                                        keysQuantities = CalculateTierBuckets protectedKeys tierLimits;
                                        costComponents = costComponents @
                                          [case index keysQuantities 0 of
                                             Inl p \<Rightarrow> Inl p
                                           | Inr q \<Rightarrow>
                                               vaultKeysCostComponent (name @ '' (first 250)'') location
                                                 keyUnit skuName meterName ''0'' (Some q) 1];
                                        costComponents = costComponents @
                                          (case index keysQuantities 1 of
                                             Inl p \<Rightarrow> [Inl p]
                                           | Inr q \<Rightarrow>
                                               if q > 0 then
                                                 [vaultKeysCostComponent (name @ '' (next 1250)'')
                                                    location keyUnit skuName meterName ''250'' (Some q) 1]
                                               else []);
                                        costComponents = costComponents @
                                          (case index keysQuantities 2 of
                                             Inl p \<Rightarrow> [Inl p]
                                           | Inr q \<Rightarrow>
                                               if q > 0 then
                                                 [vaultKeysCostComponent (name @ '' (next 2500)'')
                                                    location keyUnit skuName meterName ''1500'' (Some q) 1]
                                               else []);
                                        costComponents = costComponents @
                                          (case index keysQuantities 3 of
                                             Inl p \<Rightarrow> [Inl p]
                                           | Inr q \<Rightarrow>
                                               if q > 0 then
                                                 [vaultKeysCostComponent (name @ '' (over 4000)'')
                                                    location keyUnit skuName meterName ''4000'' (Some q) 1]
                                               else [])
                                    in (costComponents, meterName))
                             | None \<Rightarrow>
                                 (let unknown = None
                                  in (costComponents @
                                        [vaultKeysCostComponent name location keyUnit skuName
                                           meterName ''0'' unknown 1], meterName)))
                      in case usageQuantity u ''monthly_protected_keys_operations'' of
                           Some hsmProtectedTransactions \<Rightarrow>
                             if keyType = ''RSA'' \<and> keySize = ''2048'' then
                               (let meterName = ''Operations''
                                in costComponents @
                                     [vaultKeysCostComponent name location unit skuName meterName
                                        ''0'' (Some hsmProtectedTransactions) 10000])
                             else
                               (let meterName = ''Advanced Key Operations''
                                in costComponents @
                                     [vaultKeysCostComponent name location unit skuName meterName
                                        ''0'' (Some hsmProtectedTransactions) 10000])
                         | None \<Rightarrow> costComponents)
                   else costComponents)
            in case collect costComponents of
                 Inl p \<Rightarrow> Inl p
               | Inr cs \<Rightarrow> Inr (Some (Resource (Address d) [] cs), w))))"

section \<open>Example inputs\<close>

text \<open>
  Values as the plan parser delivers them. The accessors the handlers do not call on a
  value are left at their zero results.
\<close>

definition string_value :: "string \<Rightarrow> Result" where
  "string_value s = Result gjson_String True s False 0 0 [] Map.empty"

definition number_value :: "string \<Rightarrow> int \<Rightarrow> Result" where
  "number_value raw n = Result gjson_Number True raw (n \<noteq> 0) n (of_int n) [] Map.empty"

definition object_value :: "(string \<rightharpoonup> Result) \<Rightarrow> Result" where
  "object_value paths = Result gjson_JSON True [] False 0 0 [] paths"

text \<open>
  Modelled from the spec: the declaration of \<open>defaultVolumeSize\<close> is not among the sources;
  an unspecified root volume defaults to 8 GiB. \<open>defaultEC2InstanceMetricCount\<close> is
  declared with the value 7.
\<close>

definition initial_world :: world where
  "initial_world = \<lparr> defaultEC2InstanceMetricCount = 7, defaultVolumeSize = 8, logged = [] \<rparr>"

text \<open>A stand-in for the absent \<open>ebsVolumeCostComponents\<close>: one storage line per volume.\<close>

definition example_ebsVolumeCostComponents :: ebsVolumeCostComponents_fn where
  "example_ebsVolumeCostComponents region volumeAPIName throughputVal gbVal iopsVal monthlyIORequests =
     [\<lparr> Name = ''Storage ('' @ volumeAPIName @ '')'',
        Unit = ''GB'',
        UnitMultiplier = 1,
        IgnoreIfMissingPrice = False,
        ProductFilter = None,
        PriceFilter = None,
        HourlyQuantity = None,
        MonthlyQuantity = Some gbVal \<rparr>]"

definition host_instance :: ResourceData where
  "host_instance = ResourceData ''aws_instance.dedicated_host''
     (object_value [''tenancy'' \<mapsto> string_value ''host'',
                    ''instance_type'' \<mapsto> string_value ''m5.large'',
                    ''region'' \<mapsto> string_value ''us-east-1''])
     Map.empty"

definition burstable_instance :: ResourceData where
  "burstable_instance = ResourceData ''aws_instance.web''
     (object_value [''instance_type'' \<mapsto> string_value ''t3.micro'',
                    ''region'' \<mapsto> string_value ''us-east-1''])
     Map.empty"

definition standard_instance :: ResourceData where
  "standard_instance = ResourceData ''aws_instance.db''
     (object_value [''instance_type'' \<mapsto> string_value ''m5.large'',
                    ''region'' \<mapsto> string_value ''us-east-1''])
     Map.empty"

definition reserved_usage :: UsageData where
  "reserved_usage = \<lparr> Attributes =
     [''reserved_instance_type'' \<mapsto> string_value ''standard'',
      ''reserved_instance_term'' \<mapsto> string_value ''1_year'',
      ''reserved_instance_payment_option'' \<mapsto> string_value ''no_upfront''] \<rparr>"

definition solaris_usage :: UsageData where
  "solaris_usage = \<lparr> Attributes = [''operating_system'' \<mapsto> string_value ''Solaris''] \<rparr>"

definition premium_vault :: ResourceData where
  "premium_vault = ResourceData ''azurerm_key_vault.main''
     (object_value [''location'' \<mapsto> string_value ''eastus'',
                    ''sku_name'' \<mapsto> string_value ''premium''])
     Map.empty"

definition standard_vault :: ResourceData where
  "standard_vault = ResourceData ''azurerm_key_vault.main''
     (object_value [''location'' \<mapsto> string_value ''eastus'',
                    ''sku_name'' \<mapsto> string_value ''standard''])
     Map.empty"

definition vault_without_location :: ResourceData where
  "vault_without_location = ResourceData ''azurerm_key_vault.imported''
     (object_value [''sku_name'' \<mapsto> string_value ''standard''])
     Map.empty"

definition premium_vault_without_location :: ResourceData where
  "premium_vault_without_location = ResourceData ''azurerm_key_vault.imported''
     (object_value [''sku_name'' \<mapsto> string_value ''premium''])
     Map.empty"

definition hsm_key :: "ResourceData \<Rightarrow> ResourceData" where
  "hsm_key vault = ResourceData ''azurerm_key_vault_key.signing''
     (object_value [''key_type'' \<mapsto> string_value ''EC-HSM''])
     [''key_vault_id'' \<mapsto> [vault]]"

definition unresolved_key :: ResourceData where
  "unresolved_key = ResourceData ''azurerm_key_vault_key.orphan''
     (object_value [''key_type'' \<mapsto> string_value ''RSA'',
                    ''key_size'' \<mapsto> number_value ''2048'' 2048])
     Map.empty"

definition secrets_usage :: UsageData where
  "secrets_usage = \<lparr> Attributes = [''monthly_secrets_operations'' \<mapsto> number_value ''25000'' 25000] \<rparr>"

definition hsm_usage :: UsageData where
  "hsm_usage = \<lparr> Attributes = [''hsm_protected_keys'' \<mapsto> number_value ''3000'' 3000] \<rparr>"

section \<open>Absent values\<close>

text \<open>A path that is not present reads as the absent value: it does not exist and its string is empty.\<close>

lemma absent_path:
  "Paths (RawValues d) path = None \<Longrightarrow>
     Get d path = zero_Result \<and> \<not> Exists (Get d path) \<and> String (Get d path) = [] \<and>
     Type (Get d path) = gjson_Null"
  by (simp add: Get_def Result_Get_def zero_Result_def)

lemma absent_usage_key:
  "Attributes u key = None \<Longrightarrow> \<not> Exists (UsageData_Get u key)"
  by (simp add: UsageData_Get_def zero_Result_def)

section \<open>Skipped resources\<close>

lemma unresolved_reference_panics:
  "References d ''key_vault_id'' = [] \<Longrightarrow> NewAzureKeyVaultKey d u w = Inl IndexOutOfRange"
  by (simp add: NewAzureKeyVaultKey_def index_def)

lemma empty_location_skips:
  "References d ''key_vault_id'' = kv # rest \<Longrightarrow> String (Get kv ''location'') = [] \<Longrightarrow>
   NewAzureKeyVaultKey d u w =
     Inr (None, w\<lparr>logged := logged w @ [''Skipping resource '' @ Address d
        @ ''. Infracost currently cannot find the location for this resource.'']\<rparr>)"
  by (simp add: NewAzureKeyVaultKey_def Warnf_def index_def)

text \<open>
  C1. The claim: when the \<open>key_vault_id\<close> reference of a key is unresolved, so that
  \<open>References("key_vault_id")\<close> is the empty sequence, the handler skips the resource
  without a panic. The handler does otherwise: it reads element 0 of the sequence before
  any check. For the key \<open>unresolved_key\<close>, which declares no resolved reference, the
  sequence is empty and the handler panics with an index out of range.
\<close>

theorem NewAzureKeyVaultKey_unresolved_key_panics:
  "References unresolved_key ''key_vault_id'' = [] \<and>
   NewAzureKeyVaultKey unresolved_key None initial_world = Inl IndexOutOfRange"
proof -
  have "References unresolved_key ''key_vault_id'' = []"
    by (simp add: References_def unresolved_key_def)
  then show ?thesis
    using unresolved_reference_panics by blast
qed

text \<open>
  C2. An instance whose \<open>tenancy\<close> attribute is \<open>host\<close> makes \<open>NewInstance\<close> return nil and
  log one warning naming the resource address; a key whose referenced vault has an empty
  location makes \<open>NewAzureKeyVaultKey\<close> return nil and log one warning naming the resource
  address. In both cases no resource, hence no cost component, is returned.
\<close>

theorem skip_with_warning:
  "(String (Get d ''tenancy'') = ''host'' \<longrightarrow>
      NewInstance ebsVolumeCostComponents d u w =
        (None, w\<lparr>logged := logged w @ [''Skipping resource '' @ Address d
           @ ''. Infracost currently does not support host tenancy for AWS EC2 instances'']\<rparr>)) \<and>
   (References k ''key_vault_id'' = kv # rest \<and> String (Get kv ''location'') = [] \<longrightarrow>
      NewAzureKeyVaultKey k u w =
        Inr (None, w\<lparr>logged := logged w @ [''Skipping resource '' @ Address k
           @ ''. Infracost currently cannot find the location for this resource.'']\<rparr>))"
  by (simp add: NewInstance_def NewAzureKeyVaultKey_def Warnf_def index_def)

theorem skip_with_warning_witness:
  "String (Get host_instance ''tenancy'') = ''host'' \<and>
   NewInstance example_ebsVolumeCostComponents host_instance None initial_world =
     (None, initial_world\<lparr>logged := [''Skipping resource aws_instance.dedicated_host. Infracost currently does not support host tenancy for AWS EC2 instances'']\<rparr>) \<and>
   References (hsm_key vault_without_location) ''key_vault_id'' = [vault_without_location] \<and>
   String (Get vault_without_location ''location'') = [] \<and>
   NewAzureKeyVaultKey (hsm_key vault_without_location) None initial_world =
     Inr (None, initial_world\<lparr>logged := [''Skipping resource azurerm_key_vault_key.signing. Infracost currently cannot find the location for this resource.'']\<rparr>)"
proof -
  have h: "String (Get host_instance ''tenancy'') = ''host''"
    by (simp add: Get_def Result_Get_def host_instance_def object_value_def string_value_def)
  have r: "References (hsm_key vault_without_location) ''key_vault_id'' = [vault_without_location]"
    by (simp add: References_def hsm_key_def)
  have l: "String (Get vault_without_location ''location'') = []"
    by (simp add: Get_def Result_Get_def vault_without_location_def object_value_def zero_Result_def)
  have a: "Address host_instance = ''aws_instance.dedicated_host''"
    by (simp add: host_instance_def)
  have b: "Address (hsm_key vault_without_location) = ''azurerm_key_vault_key.signing''"
    by (simp add: hsm_key_def)
  have lg: "logged initial_world = []"
    by (simp add: initial_world_def)
  show ?thesis
    using h r l
      skip_with_warning[of host_instance example_ebsVolumeCostComponents None initial_world
        "hsm_key vault_without_location" vault_without_location "[]"]
    by (simp add: a b lg)
qed

section \<open>The EC2 instance handler: defaults and variants\<close>

text \<open>
  C3. When the \<open>root_block_device\<close> entry of an instance specifies neither \<open>volume_type\<close>
  nor \<open>volume_size\<close>, the root-volume sub-resource is built from volume type \<open>gp2\<close> and
  size 8: these are the arguments handed to \<open>ebsVolumeCostComponents\<close>, and the
  sub-resource is the first one of the resource \<open>NewInstance\<close> returns. The size is the
  package variable \<open>defaultVolumeSize\<close>, taken at its declared value 8.
\<close>

theorem root_volume_defaults:
  assumes "\<not> Exists (Result_Get (Get d ''root_block_device.0'') ''volume_type'')"
    and "\<not> Exists (Result_Get (Get d ''root_block_device.0'') ''volume_size'')"
    and "defaultVolumeSize w = 8"
  shows "newRootBlockDevice ebsVolumeCostComponents (Get d ''root_block_device.0'') region w =
           Resource ''root_block_device'' []
             (ebsVolumeCostComponents region ''gp2'' None 8
                (if Exists (Result_Get (Get d ''root_block_device.0'') ''iops'')
                 then Float (Result_Get (Get d ''root_block_device.0'') ''iops'') else 0)
                None) \<and>
         (String (Get d ''tenancy'') \<noteq> ''host'' \<longrightarrow>
            (\<exists>r w'. NewInstance ebsVolumeCostComponents d u w = (Some r, w') \<and>
               hd (SubResources r) =
                 newRootBlockDevice ebsVolumeCostComponents (Get d ''root_block_device.0'')
                   (String (Get d ''region'')) w))"
  using assms
  by (simp add: NewInstance_def newRootBlockDevice_def newEbsBlockDevice_def Let_def split: prod.splits)

theorem root_volume_defaults_witness:
  "\<not> Exists (Result_Get (Get standard_instance ''root_block_device.0'') ''volume_type'') \<and>
   \<not> Exists (Result_Get (Get standard_instance ''root_block_device.0'') ''volume_size'') \<and>
   defaultVolumeSize initial_world = 8 \<and>
   String (Get standard_instance ''tenancy'') \<noteq> ''host'' \<and>
   newRootBlockDevice example_ebsVolumeCostComponents (Get standard_instance ''root_block_device.0'')
       ''us-east-1'' initial_world =
     Resource ''root_block_device'' []
       [\<lparr> Name = ''Storage (gp2)'', Unit = ''GB'', UnitMultiplier = 1, IgnoreIfMissingPrice = False,
          ProductFilter = None, PriceFilter = None, HourlyQuantity = None,
          MonthlyQuantity = Some 8 \<rparr>] \<and>
   (\<exists>r w'. NewInstance example_ebsVolumeCostComponents standard_instance None initial_world = (Some r, w') \<and>
      hd (SubResources r) =
        newRootBlockDevice example_ebsVolumeCostComponents (Get standard_instance ''root_block_device.0'')
          (String (Get standard_instance ''region'')) initial_world)"
proof -
  have g: "Get standard_instance ''root_block_device.0'' = zero_Result"
    by (simp add: Get_def Result_Get_def standard_instance_def object_value_def)
  have t: "\<not> Exists (Result_Get (Get standard_instance ''root_block_device.0'') ''volume_type'')"
    and s: "\<not> Exists (Result_Get (Get standard_instance ''root_block_device.0'') ''volume_size'')"
    and i: "\<not> Exists (Result_Get (Get standard_instance ''root_block_device.0'') ''iops'')"
    by (simp_all add: g Result_Get_def zero_Result_def)
  have v: "defaultVolumeSize initial_world = 8"
    by (simp add: initial_world_def)
  have h: "String (Get standard_instance ''tenancy'') \<noteq> ''host''"
    by (simp add: Get_def Result_Get_def standard_instance_def object_value_def zero_Result_def)
  show ?thesis
    using root_volume_defaults[OF t s v, of example_ebsVolumeCostComponents "''us-east-1''" None]
      root_volume_defaults[OF t s v, of example_ebsVolumeCostComponents "String (Get standard_instance ''region'')" None]
      t s v h i
    by (simp add: example_ebsVolumeCostComponents_def)
qed

text \<open>The two tuples bound by \<open>computeCostComponent\<close>, and the component it returns from them.\<close>

lemma computeCostComponent_cases:
  obtains osLabel operatingSystem w1 purchaseOptionLabel reservedIType reservedTerm reservedPaymentOption
  where
    "(osLabel, operatingSystem, w1) =
       (case u of
          None \<Rightarrow> (''Linux/UNIX'', ''Linux'', w)
        | Some ud \<Rightarrow>
            if Exists (UsageData_Get ud ''operating_system'') then
              (let os = ToLower (String (UsageData_Get ud ''operating_system'')) in
               if os = ''windows'' then (''Windows'', ''Windows'', w)
               else if os = ''rhel'' then (''RHEL'', ''RHEL'', w)
               else if os = ''suse'' then (''SUSE'', ''SUSE'', w)
               else if os \<noteq> ''linux'' then
                 (''Linux/UNIX'', ''Linux'',
                  Warnf w (''Unrecognized operating system '' @ os @ '', defaulting to Linux/UNIX''))
               else (''Linux/UNIX'', ''Linux'', w))
            else (''Linux/UNIX'', ''Linux'', w))"
    and
    "(purchaseOptionLabel, reservedIType, reservedTerm, reservedPaymentOption) =
       (case u of
          None \<Rightarrow>
            ((case map_of [(''on_demand'', ''on-demand''), (''spot'', ''spot'')] purchaseOption of
                None \<Rightarrow> [] | Some l \<Rightarrow> l), [], [], [])
        | Some ud \<Rightarrow>
            if Exists (UsageData_Get ud ''reserved_instance_type'') then
              (''reserved'',
               String (UsageData_Get ud ''reserved_instance_type''),
               (if Exists (UsageData_Get ud ''reserved_instance_term'')
                then String (UsageData_Get ud ''reserved_instance_term'') else []),
               (if Exists (UsageData_Get ud ''reserved_instance_payment_option'')
                then String (UsageData_Get ud ''reserved_instance_payment_option'') else []))
            else
              ((case map_of [(''on_demand'', ''on-demand''), (''spot'', ''spot'')] purchaseOption of
                  None \<Rightarrow> [] | Some l \<Rightarrow> l), [], [], []))"
    and
    "computeCostComponent d u purchaseOption tenancy w =
      ((if reservedIType \<noteq> [] then
         reservedInstanceCostComponent (String (Get d ''region'')) osLabel purchaseOptionLabel
           reservedIType reservedTerm reservedPaymentOption tenancy (String (Get d ''instance_type''))
           operatingSystem 1
       else
         \<lparr> Name = ''Instance usage ('' @ osLabel @ '', '' @ purchaseOptionLabel @ '', ''
              @ String (Get d ''instance_type'') @ '')'',
           Unit = ''hours'', UnitMultiplier = 1, IgnoreIfMissingPrice = False,
           ProductFilter = Some \<lparr>
             VendorName = Some ''aws'', Service = Some ''AmazonEC2'',
             ProductFamily = Some ''Compute Instance'', Region = Some (String (Get d ''region'')),
             AttributeFilters = [
               \<lparr> Key = ''instanceType'', Value = Some (String (Get d ''instance_type'')), ValueRegex = None \<rparr>,
               \<lparr> Key = ''tenancy'', Value = Some tenancy, ValueRegex = None \<rparr>,
               \<lparr> Key = ''operatingSystem'', Value = Some operatingSystem, ValueRegex = None \<rparr>,
               \<lparr> Key = ''preInstalledSw'', Value = Some ''NA'', ValueRegex = None \<rparr>,
               \<lparr> Key = ''capacitystatus'', Value = Some ''Used'', ValueRegex = None \<rparr>] \<rparr>,
           PriceFilter = Some \<lparr> PurchaseOption = Some purchaseOption, StartUsageAmount = None,
             TermLength = None, TermPurchaseOption = None, TermOfferingClass = None \<rparr>,
           HourlyQuantity = Some 1, MonthlyQuantity = None \<rparr>), w1)"
proof -
  define osr where "osr =
            (case u of
               None \<Rightarrow> (''Linux/UNIX'', ''Linux'', w)
             | Some ud \<Rightarrow>
                 if Exists (UsageData_Get ud ''operating_system'') then
                   (let os = ToLower (String (UsageData_Get ud ''operating_system'')) in
                    if os = ''windows'' then (''Windows'', ''Windows'', w)
                    else if os = ''rhel'' then (''RHEL'', ''RHEL'', w)
                    else if os = ''suse'' then (''SUSE'', ''SUSE'', w)
                    else if os \<noteq> ''linux'' then
                      (''Linux/UNIX'', ''Linux'',
                       Warnf w (''Unrecognized operating system '' @ os @ '', defaulting to Linux/UNIX''))
                    else (''Linux/UNIX'', ''Linux'', w))
                 else (''Linux/UNIX'', ''Linux'', w))"
  define rsv where "rsv =
            (case u of
               None \<Rightarrow> ((case map_of [(''on_demand'', ''on-demand''), (''spot'', ''spot'')] purchaseOption of
               None \<Rightarrow> [] | Some l \<Rightarrow> l), [], [], [])
             | Some ud \<Rightarrow>
                 if Exists (UsageData_Get ud ''reserved_instance_type'') then
                   (''reserved'',
                    String (UsageData_Get ud ''reserved_instance_type''),
                    (if Exists (UsageData_Get ud ''reserved_instance_term'')
                     then String (UsageData_Get ud ''reserved_instance_term'') else []),
                    (if Exists (UsageData_Get ud ''reserved_instance_payment_option'')
                     then String (UsageData_Get ud ''reserved_instance_payment_option'') else []))
                 else ((case map_of [(''on_demand'', ''on-demand''), (''spot'', ''spot'')] purchaseOption of
               None \<Rightarrow> [] | Some l \<Rightarrow> l), [], [], []))"
  obtain osLabel operatingSystem w1 where o: "osr = (osLabel, operatingSystem, w1)"
    by (cases osr)
  obtain purchaseOptionLabel reservedIType reservedTerm reservedPaymentOption
    where r: "rsv = (purchaseOptionLabel, reservedIType, reservedTerm, reservedPaymentOption)"
    by (cases rsv)
  have eq: "computeCostComponent d u purchaseOption tenancy w =
      (case osr of (osLabel, operatingSystem, w1) \<Rightarrow>
        (case rsv of (purchaseOptionLabel, reservedIType, reservedTerm, reservedPaymentOption) \<Rightarrow>
      if reservedIType \<noteq> [] then
         (reservedInstanceCostComponent (String (Get d ''region'')) osLabel purchaseOptionLabel
           reservedIType reservedTerm reservedPaymentOption tenancy (String (Get d ''instance_type''))
           operatingSystem 1, w1)
       else
         (\<lparr> Name = ''Instance usage ('' @ osLabel @ '', '' @ purchaseOptionLabel @ '', ''
              @ String (Get d ''instance_type'') @ '')'',
           Unit = ''hours'', UnitMultiplier = 1, IgnoreIfMissingPrice = False,
           ProductFilter = Some \<lparr>
             VendorName = Some ''aws'', Service = Some ''AmazonEC2'',
             ProductFamily = Some ''Compute Instance'', Region = Some (String (Get d ''region'')),
             AttributeFilters = [
               \<lparr> Key = ''instanceType'', Value = Some (String (Get d ''instance_type'')), ValueRegex = None \<rparr>,
               \<lparr> Key = ''tenancy'', Value = Some tenancy, ValueRegex = None \<rparr>,
               \<lparr> Key = ''operatingSystem'', Value = Some operatingSystem, ValueRegex = None \<rparr>,
               \<lparr> Key = ''preInstalledSw'', Value = Some ''NA'', ValueRegex = None \<rparr>,
               \<lparr> Key = ''capacitystatus'', Value = Some ''Used'', ValueRegex = None \<rparr>] \<rparr>,
           PriceFilter = Some \<lparr> PurchaseOption = Some purchaseOption, StartUsageAmount = None,
             TermLength = None, TermPurchaseOption = None, TermOfferingClass = None \<rparr>,
           HourlyQuantity = Some 1, MonthlyQuantity = None \<rparr>, w1)))"
    unfolding computeCostComponent_def osr_def rsv_def Let_def by (rule refl)
  show thesis
  proof (rule that[of osLabel operatingSystem w1 purchaseOptionLabel reservedIType reservedTerm
        reservedPaymentOption])
    show "(osLabel, operatingSystem, w1) =
       (case u of
          None \<Rightarrow> (''Linux/UNIX'', ''Linux'', w)
        | Some ud \<Rightarrow>
            if Exists (UsageData_Get ud ''operating_system'') then
              (let os = ToLower (String (UsageData_Get ud ''operating_system'')) in
               if os = ''windows'' then (''Windows'', ''Windows'', w)
               else if os = ''rhel'' then (''RHEL'', ''RHEL'', w)
               else if os = ''suse'' then (''SUSE'', ''SUSE'', w)
               else if os \<noteq> ''linux'' then
                 (''Linux/UNIX'', ''Linux'',
                  Warnf w (''Unrecognized operating system '' @ os @ '', defaulting to Linux/UNIX''))
               else (''Linux/UNIX'', ''Linux'', w))
            else (''Linux/UNIX'', ''Linux'', w))"
      unfolding o[symmetric] osr_def ..
    show "(purchaseOptionLabel, reservedIType, reservedTerm, reservedPaymentOption) =
       (case u of
          None \<Rightarrow>
            ((case map_of [(''on_demand'', ''on-demand''), (''spot'', ''spot'')] purchaseOption of
                None \<Rightarrow> [] | Some l \<Rightarrow> l), [], [], [])
        | Some ud \<Rightarrow>
            if Exists (UsageData_Get ud ''reserved_instance_type'') then
              (''reserved'',
               String (UsageData_Get ud ''reserved_instance_type''),
               (if Exists (UsageData_Get ud ''reserved_instance_term'')
                then String (UsageData_Get ud ''reserved_instance_term'') else []),
               (if Exists (UsageData_Get ud ''reserved_instance_payment_option'')
                then String (UsageData_Get ud ''reserved_instance_payment_option'') else []))
            else
              ((case map_of [(''on_demand'', ''on-demand''), (''spot'', ''spot'')] purchaseOption of
                  None \<Rightarrow> [] | Some l \<Rightarrow> l), [], [], []))"
      unfolding r[symmetric] rsv_def ..
    show "computeCostComponent d u purchaseOption tenancy w =
      ((if reservedIType \<noteq> [] then
         reservedInstanceCostComponent (String (Get d ''region'')) osLabel purchaseOptionLabel
           reservedIType reservedTerm reservedPaymentOption tenancy (String (Get d ''instance_type''))
           operatingSystem 1
       else
         \<lparr> Name = ''Instance usage ('' @ osLabel @ '', '' @ purchaseOptionLabel @ '', ''
              @ String (Get d ''instance_type'') @ '')'',
           Unit = ''hours'', UnitMultiplier = 1, IgnoreIfMissingPrice = False,
           ProductFilter = Some \<lparr>
             VendorName = Some ''aws'', Service = Some ''AmazonEC2'',
             ProductFamily = Some ''Compute Instance'', Region = Some (String (Get d ''region'')),
             AttributeFilters = [
               \<lparr> Key = ''instanceType'', Value = Some (String (Get d ''instance_type'')), ValueRegex = None \<rparr>,
               \<lparr> Key = ''tenancy'', Value = Some tenancy, ValueRegex = None \<rparr>,
               \<lparr> Key = ''operatingSystem'', Value = Some operatingSystem, ValueRegex = None \<rparr>,
               \<lparr> Key = ''preInstalledSw'', Value = Some ''NA'', ValueRegex = None \<rparr>,
               \<lparr> Key = ''capacitystatus'', Value = Some ''Used'', ValueRegex = None \<rparr>] \<rparr>,
           PriceFilter = Some \<lparr> PurchaseOption = Some purchaseOption, StartUsageAmount = None,
             TermLength = None, TermPurchaseOption = None, TermOfferingClass = None \<rparr>,
           HourlyQuantity = Some 1, MonthlyQuantity = None \<rparr>), w1)"
      unfolding eq o r
      by (cases "reservedIType = []") (simp_all only: prod.case if_True if_False simp_thms)
  qed
qed

lemma computeCostComponent_not_credits:
  "Name (fst (computeCostComponent d u purchaseOption tenancy w)) \<noteq> ''CPU credits''"
proof -
  obtain osLabel operatingSystem w1 purchaseOptionLabel reservedIType reservedTerm reservedPaymentOption
    where "computeCostComponent d u purchaseOption tenancy w =
      ((if reservedIType \<noteq> [] then
         reservedInstanceCostComponent (String (Get d ''region'')) osLabel purchaseOptionLabel
           reservedIType reservedTerm reservedPaymentOption tenancy (String (Get d ''instance_type''))
           operatingSystem 1
       else
         \<lparr> Name = ''Instance usage ('' @ osLabel @ '', '' @ purchaseOptionLabel @ '', ''
              @ String (Get d ''instance_type'') @ '')'',
           Unit = ''hours'', UnitMultiplier = 1, IgnoreIfMissingPrice = False,
           ProductFilter = Some \<lparr>
             VendorName = Some ''aws'', Service = Some ''AmazonEC2'',
             ProductFamily = Some ''Compute Instance'', Region = Some (String (Get d ''region'')),
             AttributeFilters = [
               \<lparr> Key = ''instanceType'', Value = Some (String (Get d ''instance_type'')), ValueRegex = None \<rparr>,
               \<lparr> Key = ''tenancy'', Value = Some tenancy, ValueRegex = None \<rparr>,
               \<lparr> Key = ''operatingSystem'', Value = Some operatingSystem, ValueRegex = None \<rparr>,
               \<lparr> Key = ''preInstalledSw'', Value = Some ''NA'', ValueRegex = None \<rparr>,
               \<lparr> Key = ''capacitystatus'', Value = Some ''Used'', ValueRegex = None \<rparr>] \<rparr>,
           PriceFilter = Some \<lparr> PurchaseOption = Some purchaseOption, StartUsageAmount = None,
             TermLength = None, TermPurchaseOption = None, TermOfferingClass = None \<rparr>,
           HourlyQuantity = Some 1, MonthlyQuantity = None \<rparr>), w1)"
    by (rule computeCostComponent_cases)
  then show ?thesis
    by (simp add: reservedInstanceCostComponent_def)
qed

text \<open>
  C4. With no \<open>credit_specification.0.cpu_credits\<close> value (\<open>String()\<close> is empty, as it is
  for an absent path by \<open>absent_path\<close>), \<open>cpuCreditsCostComponent\<close> returns a component, named
  \<open>CPU credits\<close>, exactly when the instance type begins with \<open>t3.\<close> or \<open>t4g.\<close>; and the
  resource returned by \<open>NewInstance\<close> has a component of that name exactly in that case.
\<close>

theorem cpu_credits_burstable:
  assumes "String (Get d ''credit_specification.0.cpu_credits'') = []"
  shows "(cpuCreditsCostComponent d \<noteq> None) =
           (HasPrefix (String (Get d ''instance_type'')) ''t3.'' \<or>
            HasPrefix (String (Get d ''instance_type'')) ''t4g.'') \<and>
         (\<forall>c. cpuCreditsCostComponent d = Some c \<longrightarrow> Name c = ''CPU credits'') \<and>
         (\<forall>r w'. NewInstance ebsVolumeCostComponents d u w = (Some r, w') \<longrightarrow>
            (\<exists>c \<in> set (CostComponents r). Name c = ''CPU credits'') =
              (HasPrefix (String (Get d ''instance_type'')) ''t3.'' \<or>
               HasPrefix (String (Get d ''instance_type'')) ''t4g.''))"
proof (intro conjI allI impI)
  show a: "(cpuCreditsCostComponent d \<noteq> None) =
           (HasPrefix (String (Get d ''instance_type'')) ''t3.'' \<or>
            HasPrefix (String (Get d ''instance_type'')) ''t4g.'')"
    using assms by (simp add: cpuCreditsCostComponent_def Let_def)
  show b: "Name c = ''CPU credits''" if "cpuCreditsCostComponent d = Some c" for c
  proof (cases "String (Get d ''credit_specification.0.cpu_credits'') = [] \<and>
            (HasPrefix (String (Get d ''instance_type'')) ''t3.'' \<or>
             HasPrefix (String (Get d ''instance_type'')) ''t4g.'')")
    case True
    with that show ?thesis
      unfolding cpuCreditsCostComponent_def Let_def by (simp del: append.simps) force
  next
    case False
    with that assms show ?thesis
      unfolding cpuCreditsCostComponent_def Let_def by simp
  qed
  fix r w'
  assume run: "NewInstance ebsVolumeCostComponents d u w = (Some r, w')"
  let ?t = "if String (Get d ''tenancy'') = ''dedicated'' then ''Dedicated'' else ''Shared''"
  obtain c0 w1 where c0: "computeCostComponent d u ''on_demand'' ?t w = (c0, w1)"
    by (cases "computeCostComponent d u ''on_demand'' ?t w")
  have n0: "Name c0 \<noteq> ''CPU credits''"
    using computeCostComponent_not_credits[of d u "''on_demand''" ?t w] c0 by simp
  have nh: "String (Get d ''tenancy'') \<noteq> ''host''"
    using run by (auto simp add: NewInstance_def)
  have cs: "CostComponents r =
      [c0] @ (if Bool (Get d ''ebs_optimized'') then [ebsOptimizedCostComponent d] else [])
        @ (if Bool (Get d ''monitoring'') then [detailedMonitoringCostComponent d w1] else [])
        @ (case cpuCreditsCostComponent d of None \<Rightarrow> [] | Some c \<Rightarrow> [c])"
    using run nh c0 unfolding NewInstance_def Let_def
    by (cases "cpuCreditsCostComponent d") auto
  have n1: "Name (ebsOptimizedCostComponent d) \<noteq> ''CPU credits''"
    by (simp add: ebsOptimizedCostComponent_def Let_def)
  have n2: "Name (detailedMonitoringCostComponent d w1) \<noteq> ''CPU credits''"
    by (simp add: detailedMonitoringCostComponent_def Let_def)
  have "(\<exists>c \<in> set (CostComponents r). Name c = ''CPU credits'') = (cpuCreditsCostComponent d \<noteq> None)"
    using n0 n1 n2 b by (cases "cpuCreditsCostComponent d") (auto simp add: cs)
  with a show "(\<exists>c \<in> set (CostComponents r). Name c = ''CPU credits'') =
              (HasPrefix (String (Get d ''instance_type'')) ''t3.'' \<or>
               HasPrefix (String (Get d ''instance_type'')) ''t4g.'')"
    by simp
qed

theorem cpu_credits_burstable_witness:
  "String (Get burstable_instance ''credit_specification.0.cpu_credits'') = [] \<and>
   HasPrefix (String (Get burstable_instance ''instance_type'')) ''t3.'' \<and>
   cpuCreditsCostComponent burstable_instance \<noteq> None \<and>
   String (Get standard_instance ''credit_specification.0.cpu_credits'') = [] \<and>
   \<not> HasPrefix (String (Get standard_instance ''instance_type'')) ''t3.'' \<and>
   \<not> HasPrefix (String (Get standard_instance ''instance_type'')) ''t4g.'' \<and>
   cpuCreditsCostComponent standard_instance = None"
proof -
  have b: "String (Get burstable_instance ''credit_specification.0.cpu_credits'') = []"
    by (simp add: Get_def Result_Get_def burstable_instance_def object_value_def zero_Result_def)
  have s: "String (Get standard_instance ''credit_specification.0.cpu_credits'') = []"
    by (simp add: Get_def Result_Get_def standard_instance_def object_value_def zero_Result_def)
  have bt: "String (Get burstable_instance ''instance_type'') = ''t3.micro''"
    by (simp add: Get_def Result_Get_def burstable_instance_def object_value_def string_value_def)
  have st: "String (Get standard_instance ''instance_type'') = ''m5.large''"
    by (simp add: Get_def Result_Get_def standard_instance_def object_value_def string_value_def)
  have p: "HasPrefix ''t3.micro'' ''t3.''" "\<not> HasPrefix ''m5.large'' ''t3.''"
      "\<not> HasPrefix ''m5.large'' ''t4g.''"
    by (simp_all add: HasPrefix_def)
  show ?thesis
    using cpu_credits_burstable[OF b, of example_ebsVolumeCostComponents None initial_world]
      cpu_credits_burstable[OF s, of example_ebsVolumeCostComponents None initial_world]
      b s p
    by (simp add: bt st)
qed

text \<open>
  C5. With usage data that has a non-empty \<open>reserved_instance_type\<close>, a
  \<open>reserved_instance_term\<close> and a \<open>reserved_instance_payment_option\<close>,
  \<open>computeCostComponent\<close> returns the reserved cost component: its price filter sets the
  offering class, the term length and the payment option, has no purchase option, and the
  purchase-option label in its name is \<open>reserved\<close>.
\<close>

theorem reserved_usage_selects_reserved_path:
  assumes "Exists (UsageData_Get ud ''reserved_instance_type'')"
    and "String (UsageData_Get ud ''reserved_instance_type'') \<noteq> []"
    and "Exists (UsageData_Get ud ''reserved_instance_term'')"
    and "Exists (UsageData_Get ud ''reserved_instance_payment_option'')"
  shows "\<exists>c w' osLabel operatingSystem termLength termPurchaseOption.
      computeCostComponent d (Some ud) purchaseOption tenancy w = (c, w') \<and>
      c = reservedInstanceCostComponent (String (Get d ''region'')) osLabel ''reserved''
            (String (UsageData_Get ud ''reserved_instance_type''))
            (String (UsageData_Get ud ''reserved_instance_term''))
            (String (UsageData_Get ud ''reserved_instance_payment_option''))
            tenancy (String (Get d ''instance_type'')) operatingSystem 1 \<and>
      Name c = ''Instance usage ('' @ osLabel @ '', reserved, '' @ String (Get d ''instance_type'') @ '')'' \<and>
      PriceFilter c = Some \<lparr>
        PurchaseOption = None,
        StartUsageAmount = Some ''0'',
        TermLength = Some termLength,
        TermPurchaseOption = Some termPurchaseOption,
        TermOfferingClass = Some (String (UsageData_Get ud ''reserved_instance_type'')) \<rparr>"
proof (rule computeCostComponent_cases[where u="Some ud" and w=w and purchaseOption=purchaseOption and d=d and tenancy=tenancy], goal_cases)
  case (1 osLabel operatingSystem w1 purchaseOptionLabel reservedIType reservedTerm reservedPaymentOption)
  from 1(2) assms have v: "purchaseOptionLabel = ''reserved''"
      "reservedIType = String (UsageData_Get ud ''reserved_instance_type'')"
      "reservedTerm = String (UsageData_Get ud ''reserved_instance_term'')"
      "reservedPaymentOption = String (UsageData_Get ud ''reserved_instance_payment_option'')"
    by simp_all
  have run: "computeCostComponent d (Some ud) purchaseOption tenancy w =
      (reservedInstanceCostComponent (String (Get d ''region'')) osLabel ''reserved''
            (String (UsageData_Get ud ''reserved_instance_type''))
            (String (UsageData_Get ud ''reserved_instance_term''))
            (String (UsageData_Get ud ''reserved_instance_payment_option''))
            tenancy (String (Get d ''instance_type'')) operatingSystem 1, w1)"
    unfolding 1(3) v using assms(2) by (simp only: if_True simp_thms)
  show ?case
    apply (rule exI[of _ "reservedInstanceCostComponent (String (Get d ''region'')) osLabel ''reserved''
            (String (UsageData_Get ud ''reserved_instance_type''))
            (String (UsageData_Get ud ''reserved_instance_term''))
            (String (UsageData_Get ud ''reserved_instance_payment_option''))
            tenancy (String (Get d ''instance_type'')) operatingSystem 1"])
    apply (rule exI[of _ w1], rule exI[of _ osLabel], rule exI[of _ operatingSystem])
    apply (simp add: run)
    apply (simp add: reservedInstanceCostComponent_def)
    done
qed

theorem reserved_usage_selects_reserved_path_witness:
  "Exists (UsageData_Get reserved_usage ''reserved_instance_type'') \<and>
   String (UsageData_Get reserved_usage ''reserved_instance_type'') = ''standard'' \<and>
   Exists (UsageData_Get reserved_usage ''reserved_instance_term'') \<and>
   Exists (UsageData_Get reserved_usage ''reserved_instance_payment_option'') \<and>
   (\<exists>c w' osLabel operatingSystem termLength termPurchaseOption.
      computeCostComponent standard_instance (Some reserved_usage) ''on_demand'' ''Shared'' initial_world
        = (c, w') \<and>
      c = reservedInstanceCostComponent ''us-east-1'' osLabel ''reserved'' ''standard'' ''1_year''
            ''no_upfront'' ''Shared'' ''m5.large'' operatingSystem 1 \<and>
      Name c = ''Instance usage ('' @ osLabel @ '', reserved, m5.large)'' \<and>
      PriceFilter c = Some \<lparr>
        PurchaseOption = None,
        StartUsageAmount = Some ''0'',
        TermLength = Some termLength,
        TermPurchaseOption = Some termPurchaseOption,
        TermOfferingClass = Some ''standard'' \<rparr>)"
proof -
  have e: "Exists (UsageData_Get reserved_usage ''reserved_instance_type'')"
      "Exists (UsageData_Get reserved_usage ''reserved_instance_term'')"
      "Exists (UsageData_Get reserved_usage ''reserved_instance_payment_option'')"
    by (simp_all add: UsageData_Get_def reserved_usage_def string_value_def)
  have v: "String (UsageData_Get reserved_usage ''reserved_instance_type'') = ''standard''"
      "String (UsageData_Get reserved_usage ''reserved_instance_term'') = ''1_year''"
      "String (UsageData_Get reserved_usage ''reserved_instance_payment_option'') = ''no_upfront''"
    by (simp_all add: UsageData_Get_def reserved_usage_def string_value_def)
  have n: "String (UsageData_Get reserved_usage ''reserved_instance_type'') \<noteq> []"
    by (simp add: v)
  have g: "String (Get standard_instance ''region'') = ''us-east-1''"
      "String (Get standard_instance ''instance_type'') = ''m5.large''"
    by (simp_all add: Get_def Result_Get_def standard_instance_def object_value_def string_value_def)
  show ?thesis
    using reserved_usage_selects_reserved_path[OF e(1) n e(2) e(3),
        of standard_instance "''on_demand''" "''Shared''" initial_world] e
    unfolding v g by simp
qed

text \<open>
  C8. When the lower-cased \<open>operating_system\<close> of the usage data is none of \<open>windows\<close>,
  \<open>rhel\<close>, \<open>suse\<close>, \<open>linux\<close>, \<open>computeCostComponent\<close> logs one warning, uses the label
  \<open>Linux/UNIX\<close> and the attribute filter \<open>operatingSystem = Linux\<close>, and returns a cost
  component.
\<close>

theorem unrecognized_os_defaults_to_linux:
  assumes "Exists (UsageData_Get ud ''operating_system'')"
    and "os = ToLower (String (UsageData_Get ud ''operating_system''))"
    and "os \<notin> {''windows'', ''rhel'', ''suse'', ''linux''}"
  shows "\<exists>c label pf.
      computeCostComponent d (Some ud) purchaseOption tenancy w =
        (c, w\<lparr>logged := logged w @
              [''Unrecognized operating system '' @ os @ '', defaulting to Linux/UNIX'']\<rparr>) \<and>
      Name c = ''Instance usage (Linux/UNIX, '' @ label @ '', '' @ String (Get d ''instance_type'') @ '')'' \<and>
      ProductFilter c = Some pf \<and>
      AttributeFilters pf ! 2 = \<lparr> Key = ''operatingSystem'', Value = Some ''Linux'', ValueRegex = None \<rparr>"
proof (rule computeCostComponent_cases[where u="Some ud" and w=w and purchaseOption=purchaseOption and d=d and tenancy=tenancy], goal_cases)
  case (1 osLabel operatingSystem w1 purchaseOptionLabel reservedIType reservedTerm reservedPaymentOption)
  from 1(1) assms have v: "osLabel = ''Linux/UNIX''" "operatingSystem = ''Linux''"
      "w1 = w\<lparr>logged := logged w @
              [''Unrecognized operating system '' @ os @ '', defaulting to Linux/UNIX'']\<rparr>"
    by (simp_all add: Warnf_def)
  show ?case
    unfolding 1(3) v
    by (cases "reservedIType = []") (simp_all add: reservedInstanceCostComponent_def)
qed

theorem unrecognized_os_defaults_to_linux_witness:
  "Exists (UsageData_Get solaris_usage ''operating_system'') \<and>
   ''solaris'' = ToLower (String (UsageData_Get solaris_usage ''operating_system'')) \<and>
   ''solaris'' \<notin> {''windows'', ''rhel'', ''suse'', ''linux''} \<and>
   (\<exists>c label pf.
      computeCostComponent standard_instance (Some solaris_usage) ''on_demand'' ''Shared'' initial_world =
        (c, initial_world\<lparr>logged :=
              [''Unrecognized operating system solaris, defaulting to Linux/UNIX'']\<rparr>) \<and>
      Name c = ''Instance usage (Linux/UNIX, '' @ label @ '', m5.large)'' \<and>
      ProductFilter c = Some pf \<and>
      AttributeFilters pf ! 2 = \<lparr> Key = ''operatingSystem'', Value = Some ''Linux'', ValueRegex = None \<rparr>)"
proof -
  have e: "Exists (UsageData_Get solaris_usage ''operating_system'')"
    by (simp add: UsageData_Get_def solaris_usage_def string_value_def)
  have l: "''solaris'' = ToLower (String (UsageData_Get solaris_usage ''operating_system''))"
    by (simp add: UsageData_Get_def solaris_usage_def string_value_def ToLower_def isASCII_def
        upper_letters_def lower_letters_def)
  have n: "''solaris'' \<notin> {''windows'', ''rhel'', ''suse'', ''linux''}"
    by simp
  have g: "String (Get standard_instance ''instance_type'') = ''m5.large''"
    by (simp add: Get_def Result_Get_def standard_instance_def object_value_def string_value_def)
  have lg: "logged initial_world = []"
    by (simp add: initial_world_def)
  have "\<exists>c label pf.
      computeCostComponent standard_instance (Some solaris_usage) ''on_demand'' ''Shared'' initial_world =
        (c, initial_world\<lparr>logged :=
              [''Unrecognized operating system solaris, defaulting to Linux/UNIX'']\<rparr>) \<and>
      Name c = ''Instance usage (Linux/UNIX, '' @ label @ '', m5.large)'' \<and>
      ProductFilter c = Some pf \<and>
      AttributeFilters pf ! 2 = \<lparr> Key = ''operatingSystem'', Value = Some ''Linux'', ValueRegex = None \<rparr>"
    using unrecognized_os_defaults_to_linux[OF e l n,
        of standard_instance "''on_demand''" "''Shared''" initial_world]
    unfolding g lg by simp
  with e l n show ?thesis
    by (intro conjI)
qed

section \<open>Decimal division and tier buckets\<close>

lemma DivRound_exact:
  assumes "\<bar>d / d2\<bar> * 10 ^ prec = of_int k"
  shows "DivRound d d2 prec = d / d2"
proof -
  have "\<lfloor>\<bar>d / d2\<bar> * 10 ^ prec + 1 / 2\<rfloor> = k"
    unfolding assms by linarith
  then have "DivRound d d2 prec = sgn (d / d2) * of_int k / 10 ^ prec"
    unfolding DivRound_def Let_def by (rule arg_cong[where f="\<lambda>z. sgn (d / d2) * of_int z / 10 ^ prec"])
  also have "\<dots> = sgn (d / d2) * (\<bar>d / d2\<bar> * 10 ^ prec) / 10 ^ prec"
    unfolding assms ..
  also have "\<dots> = sgn (d / d2) * \<bar>d / d2\<bar>"
    by simp
  also have "\<dots> = d / d2"
    by (rule sgn_mult_abs)
  finally show ?thesis .
qed

lemma DivRound_of_int_1: "DivRound (of_int n) 1 DivisionPrecision = of_int n"
proof -
  have "\<bar>(of_int n :: rat) / 1\<bar> * 10 ^ DivisionPrecision = of_int (\<bar>n\<bar> * 10 ^ 16)"
    by (simp add: DivisionPrecision_def)
  from DivRound_exact[OF this] show ?thesis by simp
qed

lemma DivRound_of_int_10000: "DivRound (of_int n) 10000 DivisionPrecision = of_int n / 10000"
proof -
  have "\<bar>(of_int n :: rat) / 10000\<bar> * 10 ^ DivisionPrecision = of_int (\<bar>n\<bar> * 10 ^ 12)"
    by (simp add: DivisionPrecision_def)
  from DivRound_exact[OF this] show ?thesis .
qed

lemma CalculateTierBuckets_of_int:
  "\<exists>ks. CalculateTierBuckets (of_int n) bs = map of_int ks \<and> length ks = Suc (length bs)"
proof (induction bs arbitrary: n)
  case Nil
  show ?case by (rule exI[of _ "[n]"]) simp
next
  case (Cons b bs)
  have m: "min (of_int n :: rat) (of_int b) = of_int (min n b)" by simp
  obtain ks where "CalculateTierBuckets (of_int (n - min n b)) bs = map of_int ks" "length ks = Suc (length bs)"
    using Cons.IH by blast
  then show ?case
    by (intro exI[of _ "min n b # ks"]) (simp add: m)
qed

lemma CalculateTierBuckets_four:
  "\<exists>k0 k1 k2 k3. CalculateTierBuckets (of_int n) [250, 1250, 2500] = [of_int k0, of_int k1, of_int k2, of_int k3]"
proof -
  from CalculateTierBuckets_of_int[of n "[250, 1250, 2500]"]
  obtain ks where ks: "CalculateTierBuckets (of_int n) [250, 1250, 2500] = map of_int ks"
      and len: "length ks = Suc (length [250, 1250, 2500 :: int])"
    by blast
  from len obtain k0 k1 k2 k3 where "ks = [k0, k1, k2, k3]"
    by (auto simp: length_Suc_conv)
  with ks show ?thesis
    by (intro exI[of _ k0] exI[of _ k1] exI[of _ k2] exI[of _ k3]) (simp only: list.map)
qed

section \<open>The key vault key handler: its cost components\<close>

lemma vaultKeysCostComponent_eq:
  assumes "multi \<noteq> 0"
  shows "vaultKeysCostComponent n l un s m st q multi =
    Inr \<lparr> Name = n, Unit = un, UnitMultiplier = 1, IgnoreIfMissingPrice = False,
          ProductFilter = Some \<lparr> VendorName = Some ''azure'', Service = Some ''Key Vault'',
            ProductFamily = Some ''Security'', Region = Some l,
            AttributeFilters = [
              \<lparr> Key = ''productName'', Value = Some ''Key Vault'', ValueRegex = None \<rparr>,
              \<lparr> Key = ''skuName'', Value = Some s, ValueRegex = None \<rparr>,
              \<lparr> Key = ''meterName'', Value = Some m, ValueRegex = None \<rparr>] \<rparr>,
          PriceFilter = Some \<lparr> PurchaseOption = Some ''Consumption'', StartUsageAmount = Some st,
            TermLength = None, TermPurchaseOption = None, TermOfferingClass = None \<rparr>,
          HourlyQuantity = None,
          MonthlyQuantity = map_option (\<lambda>x. DivRound x (of_int multi) DivisionPrecision) q \<rparr>"
  using assms by (cases q) (simp_all add: vaultKeysCostComponent_def Div_def)

lemma vaultKeysCostComponent_total:
  assumes "multi \<noteq> 0"
  shows "\<exists>c. vaultKeysCostComponent n l un s m st q multi = Inr c \<and> Name c = n \<and> Unit c = un"
  unfolding vaultKeysCostComponent_eq[OF assms] by simp

lemma index_first: "index (x # xs) 0 = Inr x"
  by (simp add: index_def)

lemma RSA_no_HSM_suffix: "\<not> HasSuffix ''RSA'' ''HSM''"
  by (simp add: HasSuffix_def)

text \<open>
  The slice built by the handler, once the vault resolves and has a location: the four base
  components, the software-protected component, and the HSM-protected components.
\<close>

lemma NewAzureKeyVaultKey_segments:
  assumes "References d ''key_vault_id'' = kv # rest"
    and "String (Get kv ''location'') = location"
    and "location \<noteq> []"
    and "Title (String (Get kv ''sku_name'')) = skuName"
    and "String (Get d ''key_type'') = keyType"
    and "(if Type (Get d ''key_size'') \<noteq> gjson_Null then String (Get d ''key_size'') else []) = keySize"
  shows "NewAzureKeyVaultKey d u w =
    (case collect (
       [vaultKeysCostComponent ''Secrets operations'' location ''10K transactions'' skuName
          ''Operations'' ''0'' (usageQuantity u ''monthly_secrets_operations'') 10000,
        vaultKeysCostComponent ''Certificate operations'' location ''renewals'' skuName
          ''Certificate Renewal Request'' ''0'' (usageQuantity u ''monthly_certificate_renewal_requests'') 1,
        vaultKeysCostComponent ''Certificate operations'' location ''10K transactions'' skuName
          ''Operations'' ''0'' (usageQuantity u ''monthly_certificate_other_operations'') 10000,
        vaultKeysCostComponent ''Storage key rotation'' location ''renewals'' skuName
          ''Secret Renewal'' ''0'' (usageQuantity u ''monthly_key_rotation_renewals'') 1] @
       (if \<not> HasSuffix keyType ''HSM'' then
          [vaultKeysCostComponent ''Software-protected keys'' location ''10K transactions'' skuName
             (if keyType = ''RSA'' \<and> keySize = ''2048'' then ''Operations'' else ''Advanced Key Operations'')
             ''0'' (usageQuantity u ''monthly_protected_keys_operations'') 10000]
        else []) @
       (if HasSuffix keyType ''HSM'' \<and> skuName = ''Premium'' then
          (case usageQuantity u ''hsm_protected_keys'' of
             Some protectedKeys \<Rightarrow>
               if keyType = ''RSA-HSM'' \<and> keySize = ''2048'' then
                 [vaultKeysCostComponent ''HSM-protected keys'' location ''months'' skuName
                    ''Premium HSM-protected RSA 2048-bit key'' ''0'' (Some protectedKeys) 1]
               else
                 [case index (CalculateTierBuckets protectedKeys [250, 1250, 2500]) 0 of
                    Inl p \<Rightarrow> Inl p
                  | Inr q \<Rightarrow> vaultKeysCostComponent (''HSM-protected keys'' @ '' (first 250)'') location ''months''
                      skuName ''Premium HSM-protected Advanced Key'' ''0'' (Some q) 1] @
                 (case index (CalculateTierBuckets protectedKeys [250, 1250, 2500]) 1 of
                    Inl p \<Rightarrow> [Inl p]
                  | Inr q \<Rightarrow> if q > 0 then
                      [vaultKeysCostComponent (''HSM-protected keys'' @ '' (next 1250)'') location ''months''
                         skuName ''Premium HSM-protected Advanced Key'' ''250'' (Some q) 1] else []) @
                 (case index (CalculateTierBuckets protectedKeys [250, 1250, 2500]) 2 of
                    Inl p \<Rightarrow> [Inl p]
                  | Inr q \<Rightarrow> if q > 0 then
                      [vaultKeysCostComponent (''HSM-protected keys'' @ '' (next 2500)'') location ''months''
                         skuName ''Premium HSM-protected Advanced Key'' ''1500'' (Some q) 1] else []) @
                 (case index (CalculateTierBuckets protectedKeys [250, 1250, 2500]) 3 of
                    Inl p \<Rightarrow> [Inl p]
                  | Inr q \<Rightarrow> if q > 0 then
                      [vaultKeysCostComponent (''HSM-protected keys'' @ '' (over 4000)'') location ''months''
                         skuName ''Premium HSM-protected Advanced Key'' ''4000'' (Some q) 1] else [])
           | None \<Rightarrow>
               [vaultKeysCostComponent ''HSM-protected keys'' location ''months'' skuName
                  ''Secret Renewal'' ''0'' None 1]) @
          (case usageQuantity u ''monthly_protected_keys_operations'' of
             Some hsmProtectedTransactions \<Rightarrow>
               [vaultKeysCostComponent ''HSM-protected keys'' location ''10K transactions'' skuName
                  (if keyType = ''RSA'' \<and> keySize = ''2048'' then ''Operations'' else ''Advanced Key Operations'')
                  ''0'' (Some hsmProtectedTransactions) 10000]
           | None \<Rightarrow> [])
        else []))
     of Inl p \<Rightarrow> Inl p
      | Inr cs \<Rightarrow> Inr (Some (Resource (Address d) [] cs), w))"
  using assms(3)
  unfolding NewAzureKeyVaultKey_def Let_def assms(1) index_first sum.case assms(2,4,5,6)
  by (cases "HasSuffix keyType ''HSM''"; cases "skuName = ''Premium''";
      cases "usageQuantity u ''hsm_protected_keys''";
      cases "usageQuantity u ''monthly_protected_keys_operations''";
      cases "keyType = ''RSA-HSM'' \<and> keySize = ''2048''";
      cases "keyType = ''RSA'' \<and> keySize = ''2048''";
      simp add: RSA_no_HSM_suffix split del: if_split del: CalculateTierBuckets.simps cong: conj_cong)

lemma collect_all_Inr: "list_all (\<lambda>x. \<not> isl x) xs \<Longrightarrow> collect xs = Inr (map projr xs)"
proof (induction xs)
  case Nil
  show ?case by simp
next
  case (Cons x xs)
  then show ?case by (cases x) simp_all
qed

lemma vaultKeysCostComponent_not_isl: "multi \<noteq> 0 \<Longrightarrow> \<not> isl (vaultKeysCostComponent n l un s m st q multi)"
  by (simp add: vaultKeysCostComponent_eq)

lemma usageQuantity_of_int: "usageQuantity u key = Some q \<Longrightarrow> \<exists>k. q = of_int k"
  by (auto simp: usageQuantity_def split: option.splits if_splits)

lemma tier_components_not_isl:
  "list_all (\<lambda>x. \<not> isl x)
     ([case index (CalculateTierBuckets (of_int n) [250, 1250, 2500]) 0 of
                    Inl p \<Rightarrow> Inl p
                  | Inr q \<Rightarrow> vaultKeysCostComponent (''HSM-protected keys'' @ '' (first 250)'') location ''months''
                      skuName ''Premium HSM-protected Advanced Key'' ''0'' (Some q) 1] @
                 (case index (CalculateTierBuckets (of_int n) [250, 1250, 2500]) 1 of
                    Inl p \<Rightarrow> [Inl p]
                  | Inr q \<Rightarrow> if q > 0 then
                      [vaultKeysCostComponent (''HSM-protected keys'' @ '' (next 1250)'') location ''months''
                         skuName ''Premium HSM-protected Advanced Key'' ''250'' (Some q) 1] else []) @
                 (case index (CalculateTierBuckets (of_int n) [250, 1250, 2500]) 2 of
                    Inl p \<Rightarrow> [Inl p]
                  | Inr q \<Rightarrow> if q > 0 then
                      [vaultKeysCostComponent (''HSM-protected keys'' @ '' (next 2500)'') location ''months''
                         skuName ''Premium HSM-protected Advanced Key'' ''1500'' (Some q) 1] else []) @
                 (case index (CalculateTierBuckets (of_int n) [250, 1250, 2500]) 3 of
                    Inl p \<Rightarrow> [Inl p]
                  | Inr q \<Rightarrow> if q > 0 then
                      [vaultKeysCostComponent (''HSM-protected keys'' @ '' (over 4000)'') location ''months''
                         skuName ''Premium HSM-protected Advanced Key'' ''4000'' (Some q) 1] else []))"
proof -
  obtain k0 k1 k2 k3 where ks:
    "CalculateTierBuckets (of_int n) [250, 1250, 2500] = [of_int k0, of_int k1, of_int k2, of_int k3]"
    using CalculateTierBuckets_four by blast
  show ?thesis
    unfolding ks by (simp add: index_def vaultKeysCostComponent_not_isl)
qed

text \<open>With a resolved vault that has a location, the handler does not panic.\<close>

lemma NewAzureKeyVaultKey_returns:
  assumes "References d ''key_vault_id'' = kv # rest"
    and "String (Get kv ''location'') \<noteq> []"
  shows "\<exists>cs. NewAzureKeyVaultKey d u w =
      Inr (Some (Resource (Address d) []
        (projr (vaultKeysCostComponent ''Secrets operations'' (String (Get kv ''location''))
           ''10K transactions'' (Title (String (Get kv ''sku_name''))) ''Operations'' ''0''
           (usageQuantity u ''monthly_secrets_operations'') 10000) # cs)), w)"
proof -
  have t: "list_all (\<lambda>x. \<not> isl x) (case usageQuantity u ''hsm_protected_keys'' of
             Some protectedKeys \<Rightarrow>
               if c then [vaultKeysCostComponent n1 l1 un1 s1 m1 st1 (Some protectedKeys) 1]
               else
                 [case index (CalculateTierBuckets protectedKeys [250, 1250, 2500]) 0 of
                    Inl p \<Rightarrow> Inl p
                  | Inr q \<Rightarrow> vaultKeysCostComponent (''HSM-protected keys'' @ '' (first 250)'') location ''months''
                      skuName ''Premium HSM-protected Advanced Key'' ''0'' (Some q) 1] @
                 (case index (CalculateTierBuckets protectedKeys [250, 1250, 2500]) 1 of
                    Inl p \<Rightarrow> [Inl p]
                  | Inr q \<Rightarrow> if q > 0 then
                      [vaultKeysCostComponent (''HSM-protected keys'' @ '' (next 1250)'') location ''months''
                         skuName ''Premium HSM-protected Advanced Key'' ''250'' (Some q) 1] else []) @
                 (case index (CalculateTierBuckets protectedKeys [250, 1250, 2500]) 2 of
                    Inl p \<Rightarrow> [Inl p]
                  | Inr q \<Rightarrow> if q > 0 then
                      [vaultKeysCostComponent (''HSM-protected keys'' @ '' (next 2500)'') location ''months''
                         skuName ''Premium HSM-protected Advanced Key'' ''1500'' (Some q) 1] else []) @
                 (case index (CalculateTierBuckets protectedKeys [250, 1250, 2500]) 3 of
                    Inl p \<Rightarrow> [Inl p]
                  | Inr q \<Rightarrow> if q > 0 then
                      [vaultKeysCostComponent (''HSM-protected keys'' @ '' (over 4000)'') location ''months''
                         skuName ''Premium HSM-protected Advanced Key'' ''4000'' (Some q) 1] else [])
           | None \<Rightarrow> [vaultKeysCostComponent n2 l2 un2 s2 m2 st2 None 1])"
    for c n1 l1 un1 s1 m1 st1 location skuName n2 l2 un2 s2 m2 st2
  proof (cases "usageQuantity u ''hsm_protected_keys''")
    case None
    then show ?thesis by (simp add: vaultKeysCostComponent_not_isl)
  next
    case (Some q)
    then obtain n where "q = of_int n" using usageQuantity_of_int by blast
    show ?thesis
    proof (cases c)
      case True
      with Some show ?thesis
        by (simp add: vaultKeysCostComponent_not_isl)
    next
      case False
      with Some \<open>q = of_int n\<close> show ?thesis
        by (simp only: option.case if_False tier_components_not_isl)
    qed
  qed
  show ?thesis
    unfolding NewAzureKeyVaultKey_segments[OF assms(1) refl assms(2) refl refl refl]
    apply (subst collect_all_Inr)
     apply (simp add: vaultKeysCostComponent_not_isl t split: option.splits del: CalculateTierBuckets.simps)
    apply simp
    done
qed

text \<open>Facts about the example inputs.\<close>

lemma Title_premium: "Title ''premium'' = ''Premium''"
  by (simp add: Title_def isASCII_def isSeparator_def upper_letters_def lower_letters_def)

lemma Title_standard: "Title ''standard'' = ''Standard''"
  by (simp add: Title_def isASCII_def isSeparator_def upper_letters_def lower_letters_def)

lemma hsm_key_facts:
  "References (hsm_key v) ''key_vault_id'' = [v]"
  "String (Get (hsm_key v) ''key_type'') = ''EC-HSM''"
  "Type (Get (hsm_key v) ''key_size'') = gjson_Null"
  "Address (hsm_key v) = ''azurerm_key_vault_key.signing''"
  by (simp_all add: References_def Get_def Result_Get_def hsm_key_def object_value_def
      string_value_def zero_Result_def)

lemma vault_facts:
  "String (Get premium_vault ''location'') = ''eastus''"
  "String (Get premium_vault ''sku_name'') = ''premium''"
  "String (Get standard_vault ''location'') = ''eastus''"
  "String (Get standard_vault ''sku_name'') = ''standard''"
  by (simp_all add: Get_def Result_Get_def premium_vault_def standard_vault_def object_value_def
      string_value_def)

lemma EC_HSM_suffix: "HasSuffix ''EC-HSM'' ''HSM''"
  by (simp add: HasSuffix_def)

lemma vault_without_location_facts:
  "String (Get vault_without_location ''location'') = []"
  "String (Get vault_without_location ''sku_name'') = ''standard''"
  "String (Get premium_vault_without_location ''location'') = []"
  "String (Get premium_vault_without_location ''sku_name'') = ''premium''"
  by (simp_all add: Get_def Result_Get_def vault_without_location_def
      premium_vault_without_location_def object_value_def string_value_def zero_Result_def)

lemma initial_world_logged: "logged initial_world = []"
  by (simp add: initial_world_def)

text \<open>
  C10, as amended. For a key whose \<open>key_type\<close> ends in \<open>HSM\<close>, whose referenced vault has
  a non-empty location and a title-cased \<open>sku_name\<close> other than \<open>Premium\<close>, the handler
  emits neither a software-protected-keys component nor an HSM-protected-keys component:
  whatever the usage data, the resource has exactly the four base components. Without the
  condition on the location the statement fails: the handler skips a key whose vault has
  an empty location (see the counterexample below).
\<close>

theorem non_premium_hsm_key_has_base_components_only:
  assumes "References d ''key_vault_id'' = kv # rest"
    and "String (Get kv ''location'') \<noteq> []"
    and "HasSuffix (String (Get d ''key_type'')) ''HSM''"
    and "Title (String (Get kv ''sku_name'')) \<noteq> ''Premium''"
  shows "\<exists>cs. NewAzureKeyVaultKey d u w = Inr (Some (Resource (Address d) [] cs), w) \<and>
     map Name cs = [''Secrets operations'', ''Certificate operations'', ''Certificate operations'',
       ''Storage key rotation'']"
  unfolding NewAzureKeyVaultKey_segments[OF assms(1) refl assms(2) refl refl refl]
  using assms(3,4)
  by (simp add: vaultKeysCostComponent_eq)

theorem non_premium_hsm_key_has_base_components_only_witness:
  "References (hsm_key standard_vault) ''key_vault_id'' = [standard_vault] \<and>
   String (Get standard_vault ''location'') \<noteq> [] \<and>
   HasSuffix (String (Get (hsm_key standard_vault) ''key_type'')) ''HSM'' \<and>
   Title (String (Get standard_vault ''sku_name'')) \<noteq> ''Premium'' \<and>
   (\<exists>cs. NewAzureKeyVaultKey (hsm_key standard_vault) (Some hsm_usage) initial_world =
           Inr (Some (Resource ''azurerm_key_vault_key.signing'' [] cs), initial_world) \<and>
         map Name cs = [''Secrets operations'', ''Certificate operations'', ''Certificate operations'',
           ''Storage key rotation''])"
proof -
  have r: "References (hsm_key standard_vault) ''key_vault_id'' = standard_vault # []"
    by (simp add: hsm_key_facts)
  have l: "String (Get standard_vault ''location'') \<noteq> []"
    by (simp add: vault_facts)
  have h: "HasSuffix (String (Get (hsm_key standard_vault) ''key_type'')) ''HSM''"
    by (simp add: hsm_key_facts EC_HSM_suffix)
  have t: "Title (String (Get standard_vault ''sku_name'')) \<noteq> ''Premium''"
    by (simp add: vault_facts Title_standard)
  show ?thesis
    using non_premium_hsm_key_has_base_components_only[OF r l h t, of "Some hsm_usage" initial_world]
      r l h t
    by (simp add: hsm_key_facts(4))
qed

text \<open>
  A key of type \<open>EC-HSM\<close> on a vault of sku \<open>standard\<close> that has no location: the handler
  returns nil and logs the warning, so the result does not have the four base components.
\<close>

theorem non_premium_hsm_key_without_location_is_skipped:
  "References (hsm_key vault_without_location) ''key_vault_id'' = [vault_without_location] \<and>
   HasSuffix (String (Get (hsm_key vault_without_location) ''key_type'')) ''HSM'' \<and>
   Title (String (Get vault_without_location ''sku_name'')) = ''Standard'' \<and>
   NewAzureKeyVaultKey (hsm_key vault_without_location) None initial_world =
     Inr (None, initial_world\<lparr>logged := [''Skipping resource azurerm_key_vault_key.signing. Infracost currently cannot find the location for this resource.'']\<rparr>)"
proof -
  have r: "References (hsm_key vault_without_location) ''key_vault_id'' = vault_without_location # []"
    by (simp add: hsm_key_facts)
  have h: "HasSuffix (String (Get (hsm_key vault_without_location) ''key_type'')) ''HSM''"
    by (simp add: hsm_key_facts EC_HSM_suffix)
  have t: "Title (String (Get vault_without_location ''sku_name'')) = ''Standard''"
    by (simp add: vault_without_location_facts Title_standard)
  show ?thesis
    using r h t empty_location_skips[OF r vault_without_location_facts(1), of None initial_world]
    by (simp add: hsm_key_facts(4) initial_world_logged)
qed

text \<open>
  C7. A cost component built by \<open>vaultKeysCostComponent\<close> has a nil monthly quantity when
  the quantity passed is nil, whatever the multiplier; when an (integer) usage value is
  passed, the monthly quantity is that value divided by the multiplier, exactly: the
  rounding of the decimal division to 16 places does not change the quotient by 10000 or
  by 1. In the handler, the first component, \<open>Secrets operations\<close> in units of
  \<open>10K transactions\<close>, has a nil quantity when the usage data is nil or lacks
  \<open>monthly_secrets_operations\<close>, and the value divided by 10000 otherwise.
\<close>

theorem vault_quantity_nil_or_divided:
  "(\<exists>c. vaultKeysCostComponent name location unit skuName meterName startUsage None multi = Inr c \<and>
        MonthlyQuantity c = None) \<and>
   (\<exists>c. vaultKeysCostComponent name location ''10K transactions'' skuName meterName startUsage
          (Some (of_int v)) 10000 = Inr c \<and>
        MonthlyQuantity c = Some (of_int v / 10000)) \<and>
   (\<exists>c. vaultKeysCostComponent name location unit skuName meterName startUsage
          (Some (of_int v)) 1 = Inr c \<and>
        MonthlyQuantity c = Some (of_int v)) \<and>
   (References d ''key_vault_id'' = kv # rest \<and> String (Get kv ''location'') \<noteq> [] \<longrightarrow>
      (\<exists>c cs. NewAzureKeyVaultKey d u w = Inr (Some (Resource (Address d) [] (c # cs)), w) \<and>
         Name c = ''Secrets operations'' \<and> Unit c = ''10K transactions'' \<and>
         MonthlyQuantity c =
           (case u of
              None \<Rightarrow> None
            | Some ud \<Rightarrow>
                if Exists (UsageData_Get ud ''monthly_secrets_operations'')
                then Some (of_int (Int' (UsageData_Get ud ''monthly_secrets_operations'')) / 10000)
                else None)))"
proof (intro conjI impI)
  show "\<exists>c. vaultKeysCostComponent name location unit skuName meterName startUsage None multi = Inr c \<and>
        MonthlyQuantity c = None"
    by (simp add: vaultKeysCostComponent_def)
  show "\<exists>c. vaultKeysCostComponent name location ''10K transactions'' skuName meterName startUsage
          (Some (of_int v)) 10000 = Inr c \<and>
        MonthlyQuantity c = Some (of_int v / 10000)"
    using DivRound_of_int_10000[of v] by (simp add: vaultKeysCostComponent_eq)
  show "\<exists>c. vaultKeysCostComponent name location unit skuName meterName startUsage
          (Some (of_int v)) 1 = Inr c \<and>
        MonthlyQuantity c = Some (of_int v)"
    using DivRound_of_int_1[of v] by (simp add: vaultKeysCostComponent_eq)
next
  assume a: "References d ''key_vault_id'' = kv # rest \<and> String (Get kv ''location'') \<noteq> []"
  let ?c = "projr (vaultKeysCostComponent ''Secrets operations'' (String (Get kv ''location''))
           ''10K transactions'' (Title (String (Get kv ''sku_name''))) ''Operations'' ''0''
           (usageQuantity u ''monthly_secrets_operations'') 10000)"
  from a obtain cs where run:
      "NewAzureKeyVaultKey d u w = Inr (Some (Resource (Address d) [] (?c # cs)), w)"
    using NewAzureKeyVaultKey_returns by blast
  have q: "map_option (\<lambda>x. DivRound x 10000 DivisionPrecision) (usageQuantity u ''monthly_secrets_operations'') =
           (case u of
              None \<Rightarrow> None
            | Some ud \<Rightarrow>
                if Exists (UsageData_Get ud ''monthly_secrets_operations'')
                then Some (of_int (Int' (UsageData_Get ud ''monthly_secrets_operations'')) / 10000)
                else None)"
    by (simp add: usageQuantity_def DivRound_of_int_10000 split: option.splits)
  have "Name ?c = ''Secrets operations'' \<and> Unit ?c = ''10K transactions'' \<and>
         MonthlyQuantity ?c =
           (case u of
              None \<Rightarrow> None
            | Some ud \<Rightarrow>
                if Exists (UsageData_Get ud ''monthly_secrets_operations'')
                then Some (of_int (Int' (UsageData_Get ud ''monthly_secrets_operations'')) / 10000)
                else None)"
    using q by (simp add: vaultKeysCostComponent_eq)
  with run show "\<exists>c cs. NewAzureKeyVaultKey d u w = Inr (Some (Resource (Address d) [] (c # cs)), w) \<and>
         Name c = ''Secrets operations'' \<and> Unit c = ''10K transactions'' \<and>
         MonthlyQuantity c =
           (case u of
              None \<Rightarrow> None
            | Some ud \<Rightarrow>
                if Exists (UsageData_Get ud ''monthly_secrets_operations'')
                then Some (of_int (Int' (UsageData_Get ud ''monthly_secrets_operations'')) / 10000)
                else None)"
    by blast
qed

theorem vault_quantity_nil_or_divided_witness:
  "(\<exists>c. vaultKeysCostComponent ''Secrets operations'' ''eastus'' ''10K transactions'' ''Standard''
          ''Operations'' ''0'' None 10000 = Inr c \<and> MonthlyQuantity c = None) \<and>
   (\<exists>c. vaultKeysCostComponent ''Secrets operations'' ''eastus'' ''10K transactions'' ''Standard''
          ''Operations'' ''0'' (Some 25000) 10000 = Inr c \<and> MonthlyQuantity c = Some (5 / 2)) \<and>
   (\<exists>c. vaultKeysCostComponent ''Storage key rotation'' ''eastus'' ''renewals'' ''Standard''
          ''Secret Renewal'' ''0'' (Some 25000) 1 = Inr c \<and> MonthlyQuantity c = Some 25000) \<and>
   References (hsm_key standard_vault) ''key_vault_id'' = [standard_vault] \<and>
   String (Get standard_vault ''location'') \<noteq> [] \<and>
   (\<exists>c cs. NewAzureKeyVaultKey (hsm_key standard_vault) (Some secrets_usage) initial_world =
           Inr (Some (Resource ''azurerm_key_vault_key.signing'' [] (c # cs)), initial_world) \<and>
         Name c = ''Secrets operations'' \<and> Unit c = ''10K transactions'' \<and>
         MonthlyQuantity c = Some (5 / 2)) \<and>
   (\<exists>c cs. NewAzureKeyVaultKey (hsm_key standard_vault) None initial_world =
           Inr (Some (Resource ''azurerm_key_vault_key.signing'' [] (c # cs)), initial_world) \<and>
         Name c = ''Secrets operations'' \<and> Unit c = ''10K transactions'' \<and>
         MonthlyQuantity c = None)"
proof -
  have r: "References (hsm_key standard_vault) ''key_vault_id'' = standard_vault # []"
    by (simp add: hsm_key_facts)
  have l: "String (Get standard_vault ''location'') \<noteq> []"
    by (simp add: vault_facts)
  have e: "Exists (UsageData_Get secrets_usage ''monthly_secrets_operations'')"
      "Int' (UsageData_Get secrets_usage ''monthly_secrets_operations'') = 25000"
    by (simp_all add: UsageData_Get_def secrets_usage_def number_value_def)
  have f: "(rat_of_int 25000) / 10000 = 5 / 2"
    by simp
  show ?thesis
    using
      vault_quantity_nil_or_divided[of "''Secrets operations''" "''eastus''" "''10K transactions''"
        "''Standard''" "''Operations''" "''0''" 10000 25000 "hsm_key standard_vault" standard_vault "[]"
        "Some secrets_usage" initial_world]
      vault_quantity_nil_or_divided[of "''Storage key rotation''" "''eastus''" "''renewals''"
        "''Standard''" "''Secret Renewal''" "''0''" 1 25000 "hsm_key standard_vault" standard_vault "[]"
        None initial_world]
      r l
    by (simp add: e hsm_key_facts(4))
qed

text \<open>
  C6, as amended. For a key type ending in \<open>HSM\<close> on a \<open>Premium\<close> vault that has a
  non-empty location, with \<open>hsm_protected_keys\<close> in the usage data and outside the
  RSA-HSM/2048 case, the components of the resource are the four base components, then the
  tier components, then at most one operations component. The first tier bucket is always
  emitted, also when it is zero; each later bucket is emitted exactly when it is greater
  than zero; the emitted components carry the start usage amounts \<open>0\<close>, \<open>250\<close>, \<open>1500\<close>,
  \<open>4000\<close> of their tiers, in ascending order. Without the condition on the location the
  statement fails: the handler skips a key whose vault has an empty location and emits no
  tier component (see the counterexample below).
\<close>

theorem hsm_tiered_emission:
  assumes "References d ''key_vault_id'' = kv # rest"
    and "String (Get kv ''location'') \<noteq> []"
    and "HasSuffix (String (Get d ''key_type'')) ''HSM''"
    and "Title (String (Get kv ''sku_name'')) = ''Premium''"
    and "u = Some ud"
    and "Exists (UsageData_Get ud ''hsm_protected_keys'')"
    and "\<not> (String (Get d ''key_type'') = ''RSA-HSM'' \<and>
            (if Type (Get d ''key_size'') \<noteq> gjson_Null then String (Get d ''key_size'') else []) = ''2048'')"
  shows "\<exists>base tiers ops q0 q1 q2 q3.
      CalculateTierBuckets (of_int (Int' (UsageData_Get ud ''hsm_protected_keys''))) [250, 1250, 2500]
        = [q0, q1, q2, q3] \<and>
      NewAzureKeyVaultKey d u w = Inr (Some (Resource (Address d) [] (base @ tiers @ ops)), w) \<and>
      map Name base = [''Secrets operations'', ''Certificate operations'', ''Certificate operations'',
        ''Storage key rotation''] \<and>
      map (\<lambda>c. (Name c, MonthlyQuantity c, Option.bind (PriceFilter c) StartUsageAmount)) tiers =
        (''HSM-protected keys (first 250)'', Some q0, Some ''0'') #
        (if 0 < q1 then [(''HSM-protected keys (next 1250)'', Some q1, Some ''250'')] else []) @
        (if 0 < q2 then [(''HSM-protected keys (next 2500)'', Some q2, Some ''1500'')] else []) @
        (if 0 < q3 then [(''HSM-protected keys (over 4000)'', Some q3, Some ''4000'')] else []) \<and>
      (ops = [] \<or> (\<exists>c. ops = [c] \<and> Name c = ''HSM-protected keys'' \<and> Unit c = ''10K transactions''))"
proof -
  let ?l = "String (Get kv ''location'')"
  define C where "C = (\<lambda>n un m st q.
     \<lparr> Name = n, Unit = un, UnitMultiplier = 1, IgnoreIfMissingPrice = False,
          ProductFilter = Some \<lparr> VendorName = Some ''azure'', Service = Some ''Key Vault'',
            ProductFamily = Some ''Security'', Region = Some ?l,
            AttributeFilters = [
              \<lparr> Key = ''productName'', Value = Some ''Key Vault'', ValueRegex = None \<rparr>,
              \<lparr> Key = ''skuName'', Value = Some ''Premium'', ValueRegex = None \<rparr>,
              \<lparr> Key = ''meterName'', Value = Some m, ValueRegex = None \<rparr>] \<rparr>,
          PriceFilter = Some \<lparr> PurchaseOption = Some ''Consumption'', StartUsageAmount = Some st,
            TermLength = None, TermPurchaseOption = None, TermOfferingClass = None \<rparr>,
          HourlyQuantity = None,
          MonthlyQuantity = q \<rparr>)"
  have vk: "vaultKeysCostComponent n ?l un ''Premium'' m st q multi =
      Inr (C n un m st (map_option (\<lambda>x. DivRound x (of_int multi) DivisionPrecision) q))"
    if "multi \<noteq> 0" for n un m st q multi
    unfolding C_def using that by (rule vaultKeysCostComponent_eq)
  have proj: "Name (C n un m st q) = n" "Unit (C n un m st q) = un" "MonthlyQuantity (C n un m st q) = q"
      "Option.bind (PriceFilter (C n un m st q)) StartUsageAmount = Some st" for n un m st q
    by (simp_all add: C_def)
  obtain k0 k1 k2 k3 where ks:
    "CalculateTierBuckets (of_int (Int' (UsageData_Get ud ''hsm_protected_keys''))) [250, 1250, 2500]
       = [of_int k0, of_int k1, of_int k2, of_int k3]"
    using CalculateTierBuckets_four by blast
  have hsm: "usageQuantity u ''hsm_protected_keys'' = Some (of_int (Int' (UsageData_Get ud ''hsm_protected_keys'')))"
    using assms(5,6) by (simp add: usageQuantity_def)
  have notRSA: "String (Get d ''key_type'') \<noteq> ''RSA''"
    using assms(3) RSA_no_HSM_suffix by auto
  have A: "HasSuffix (String (Get d ''key_type'')) ''HSM'' = True"
    using assms(3) by simp
  have D: "(String (Get d ''key_type'') = ''RSA-HSM'' \<and>
            (if Type (Get d ''key_size'') \<noteq> gjson_Null then String (Get d ''key_size'') else []) = ''2048'') = False"
    using assms(7) by simp
  have F: "(String (Get d ''key_type'') = ''RSA'' \<and> X) = False" for X
    using notRSA by simp
  have idx: "index [a, b, c, e] 0 = Inr a" "index [a, b, c, e] 1 = Inr b"
      "index [a, b, c, e] 2 = Inr c" "index [a, b, c, e] 3 = Inr e" for a b c e :: rat
    by (simp_all add: index_def)
  have lift: "[Inr a] = map Inr [a]" "Inr a # map Inr xs = map Inr (a # xs)"
      "(if b then map Inr xs else []) = map Inr (if b then xs else [])"
      "(case opt of None \<Rightarrow> [] | Some t \<Rightarrow> map Inr (f t)) = map Inr (case opt of None \<Rightarrow> [] | Some t \<Rightarrow> f t)"
      "map Inr xs @ map Inr ys = map Inr (xs @ ys)"
    for a :: CostComponent and xs ys b and opt :: "rat option" and f
    by (simp_all split: option.splits)
  have collect_Inr: "collect (map Inr xs) = Inr xs" for xs :: "CostComponent list"
    by (induction xs) simp_all
  note run = NewAzureKeyVaultKey_segments[OF assms(1) refl assms(2) refl refl refl, of u w,
     unfolded assms(4) hsm ks A D F idx if_True if_False option.case sum.case simp_thms
       vk[of 1, simplified] vk[of 10000, simplified] append_Nil DivRound_of_int_1 option.map
       lift collect_Inr]
  let ?base = "[C ''Secrets operations'' ''10K transactions'' ''Operations'' ''0''
       (map_option (\<lambda>x. DivRound x 10000 DivisionPrecision) (usageQuantity u ''monthly_secrets_operations'')),
     C ''Certificate operations'' ''renewals'' ''Certificate Renewal Request'' ''0''
       (map_option (\<lambda>x. DivRound x 1 DivisionPrecision) (usageQuantity u ''monthly_certificate_renewal_requests'')),
     C ''Certificate operations'' ''10K transactions'' ''Operations'' ''0''
       (map_option (\<lambda>x. DivRound x 10000 DivisionPrecision) (usageQuantity u ''monthly_certificate_other_operations'')),
     C ''Storage key rotation'' ''renewals'' ''Secret Renewal'' ''0''
       (map_option (\<lambda>x. DivRound x 1 DivisionPrecision) (usageQuantity u ''monthly_key_rotation_renewals''))]"
  let ?tier = "\<lambda>label st k.
     C (''HSM-protected keys'' @ label) ''months'' ''Premium HSM-protected Advanced Key'' st (Some (of_int k))"
  let ?tiers = "[?tier '' (first 250)'' ''0'' k0] @
     (if 0 < (of_int k1 :: rat) then [?tier '' (next 1250)'' ''250'' k1] else []) @
     (if 0 < (of_int k2 :: rat) then [?tier '' (next 2500)'' ''1500'' k2] else []) @
     (if 0 < (of_int k3 :: rat) then [?tier '' (over 4000)'' ''4000'' k3] else [])"
  let ?ops = "case usageQuantity u ''monthly_protected_keys_operations'' of
        None \<Rightarrow> []
      | Some t \<Rightarrow> [C ''HSM-protected keys'' ''10K transactions'' ''Advanced Key Operations'' ''0''
           (Some (DivRound t 10000 DivisionPrecision))]"
  show ?thesis
    apply (rule exI[of _ ?base], rule exI[of _ ?tiers], rule exI[of _ ?ops])
    apply (rule exI[of _ "of_int k0"], rule exI[of _ "of_int k1"], rule exI[of _ "of_int k2"], rule exI[of _ "of_int k3"])
    apply (intro conjI)
        apply (rule ks)
       apply (rule run)
      apply (simp add: proj)
     apply (simp add: proj)
    apply (simp add: proj split: option.splits)
    done
qed

theorem hsm_tiered_emission_witness:
  "References (hsm_key premium_vault) ''key_vault_id'' = [premium_vault] \<and>
   String (Get premium_vault ''location'') \<noteq> [] \<and>
   HasSuffix (String (Get (hsm_key premium_vault) ''key_type'')) ''HSM'' \<and>
   Title (String (Get premium_vault ''sku_name'')) = ''Premium'' \<and>
   Exists (UsageData_Get hsm_usage ''hsm_protected_keys'') \<and>
   CalculateTierBuckets 3000 [250, 1250, 2500] = [250, 1250, 1500, 0] \<and>
   (\<exists>base tiers ops.
      NewAzureKeyVaultKey (hsm_key premium_vault) (Some hsm_usage) initial_world =
        Inr (Some (Resource ''azurerm_key_vault_key.signing'' [] (base @ tiers @ ops)), initial_world) \<and>
      map Name base = [''Secrets operations'', ''Certificate operations'', ''Certificate operations'',
        ''Storage key rotation''] \<and>
      map (\<lambda>c. (Name c, MonthlyQuantity c, Option.bind (PriceFilter c) StartUsageAmount)) tiers =
        [(''HSM-protected keys (first 250)'', Some 250, Some ''0''),
         (''HSM-protected keys (next 1250)'', Some 1250, Some ''250''),
         (''HSM-protected keys (next 2500)'', Some 1500, Some ''1500'')] \<and>
      (ops = [] \<or> (\<exists>c. ops = [c] \<and> Name c = ''HSM-protected keys'' \<and> Unit c = ''10K transactions'')))"
proof -
  have r: "References (hsm_key premium_vault) ''key_vault_id'' = premium_vault # []"
    by (simp add: hsm_key_facts)
  have l: "String (Get premium_vault ''location'') \<noteq> []"
    by (simp add: vault_facts)
  have h: "HasSuffix (String (Get (hsm_key premium_vault) ''key_type'')) ''HSM''"
    by (simp add: hsm_key_facts EC_HSM_suffix)
  have t: "Title (String (Get premium_vault ''sku_name'')) = ''Premium''"
    by (simp add: vault_facts Title_premium)
  have e: "Exists (UsageData_Get hsm_usage ''hsm_protected_keys'')"
    and i: "Int' (UsageData_Get hsm_usage ''hsm_protected_keys'') = 3000"
    by (simp_all add: UsageData_Get_def hsm_usage_def number_value_def)
  have n: "\<not> (String (Get (hsm_key premium_vault) ''key_type'') = ''RSA-HSM'' \<and>
            (if Type (Get (hsm_key premium_vault) ''key_size'') \<noteq> gjson_Null
             then String (Get (hsm_key premium_vault) ''key_size'') else []) = ''2048'')"
    by (simp add: hsm_key_facts)
  have b: "CalculateTierBuckets 3000 [250, 1250, 2500] = [250, 1250, 1500, 0]"
    by simp
  from hsm_tiered_emission[OF r l h t refl e n, of initial_world]
  obtain base tiers ops q0 q1 q2 q3 where
    q: "CalculateTierBuckets (of_int (Int' (UsageData_Get hsm_usage ''hsm_protected_keys'')))
          [250, 1250, 2500] = [q0, q1, q2, q3]"
    and run: "NewAzureKeyVaultKey (hsm_key premium_vault) (Some hsm_usage) initial_world =
        Inr (Some (Resource (Address (hsm_key premium_vault)) [] (base @ tiers @ ops)), initial_world)"
    and nb: "map Name base = [''Secrets operations'', ''Certificate operations'', ''Certificate operations'',
        ''Storage key rotation'']"
    and ts: "map (\<lambda>c. (Name c, MonthlyQuantity c, Option.bind (PriceFilter c) StartUsageAmount)) tiers =
        (''HSM-protected keys (first 250)'', Some q0, Some ''0'') #
        (if 0 < q1 then [(''HSM-protected keys (next 1250)'', Some q1, Some ''250'')] else []) @
        (if 0 < q2 then [(''HSM-protected keys (next 2500)'', Some q2, Some ''1500'')] else []) @
        (if 0 < q3 then [(''HSM-protected keys (over 4000)'', Some q3, Some ''4000'')] else [])"
    and os: "ops = [] \<or> (\<exists>c. ops = [c] \<and> Name c = ''HSM-protected keys'' \<and> Unit c = ''10K transactions'')"
    by (elim exE conjE) (rule that)
  from q have qs: "q0 = 250" "q1 = 1250" "q2 = 1500" "q3 = 0"
    unfolding i by simp_all
  have ts': "map (\<lambda>c. (Name c, MonthlyQuantity c, Option.bind (PriceFilter c) StartUsageAmount)) tiers =
        [(''HSM-protected keys (first 250)'', Some 250, Some ''0''),
         (''HSM-protected keys (next 1250)'', Some 1250, Some ''250''),
         (''HSM-protected keys (next 2500)'', Some 1500, Some ''1500'')]"
    using ts unfolding qs by simp
  have run': "NewAzureKeyVaultKey (hsm_key premium_vault) (Some hsm_usage) initial_world =
        Inr (Some (Resource ''azurerm_key_vault_key.signing'' [] (base @ tiers @ ops)), initial_world)"
    using run by (simp add: hsm_key_facts(4))
  from run' nb ts' os have "\<exists>base tiers ops.
      NewAzureKeyVaultKey (hsm_key premium_vault) (Some hsm_usage) initial_world =
        Inr (Some (Resource ''azurerm_key_vault_key.signing'' [] (base @ tiers @ ops)), initial_world) \<and>
      map Name base = [''Secrets operations'', ''Certificate operations'', ''Certificate operations'',
        ''Storage key rotation''] \<and>
      map (\<lambda>c. (Name c, MonthlyQuantity c, Option.bind (PriceFilter c) StartUsageAmount)) tiers =
        [(''HSM-protected keys (first 250)'', Some 250, Some ''0''),
         (''HSM-protected keys (next 1250)'', Some 1250, Some ''250''),
         (''HSM-protected keys (next 2500)'', Some 1500, Some ''1500'')] \<and>
      (ops = [] \<or> (\<exists>c. ops = [c] \<and> Name c = ''HSM-protected keys'' \<and> Unit c = ''10K transactions''))"
    by (intro exI conjI)
  with r l h t e b show ?thesis
    by simp
qed

text \<open>
  A key of type \<open>EC-HSM\<close> on a vault of sku \<open>premium\<close> that has no location, with 3000
  \<open>hsm_protected_keys\<close>: the handler returns nil and logs the warning; no component of the
  first tier bucket is emitted.
\<close>

theorem premium_hsm_key_without_location_is_skipped:
  "References (hsm_key premium_vault_without_location) ''key_vault_id'' =
     [premium_vault_without_location] \<and>
   String (Get (hsm_key premium_vault_without_location) ''key_type'') = ''EC-HSM'' \<and>
   HasSuffix (String (Get (hsm_key premium_vault_without_location) ''key_type'')) ''HSM'' \<and>
   Title (String (Get premium_vault_without_location ''sku_name'')) = ''Premium'' \<and>
   Exists (UsageData_Get hsm_usage ''hsm_protected_keys'') \<and>
   NewAzureKeyVaultKey (hsm_key premium_vault_without_location) (Some hsm_usage) initial_world =
     Inr (None, initial_world\<lparr>logged := [''Skipping resource azurerm_key_vault_key.signing. Infracost currently cannot find the location for this resource.'']\<rparr>)"
proof -
  have r: "References (hsm_key premium_vault_without_location) ''key_vault_id'' =
      premium_vault_without_location # []"
    by (simp add: hsm_key_facts)
  have k: "String (Get (hsm_key premium_vault_without_location) ''key_type'') = ''EC-HSM''"
    by (simp add: hsm_key_facts)
  have h: "HasSuffix (String (Get (hsm_key premium_vault_without_location) ''key_type'')) ''HSM''"
    by (simp add: hsm_key_facts EC_HSM_suffix)
  have t: "Title (String (Get premium_vault_without_location ''sku_name'')) = ''Premium''"
    by (simp add: vault_without_location_facts Title_premium)
  have e: "Exists (UsageData_Get hsm_usage ''hsm_protected_keys'')"
    by (simp add: UsageData_Get_def hsm_usage_def number_value_def)
  show ?thesis
    using r k h t e
      empty_location_skips[OF r vault_without_location_facts(3), of "Some hsm_usage" initial_world]
    by (simp add: hsm_key_facts(4) initial_world_logged)
qed

end
